theory Spec2Isabelle
  imports Complex_Main "HOL-Library.Sublist" "HOL-Library.Multiset" "HOL-Library.Word"
    "HOL-Library.Product_Lexorder"
begin

section \<open>CommunitySafe: the hazard-report handlers of app.py\<close>

text \<open>
  The Flask handlers of \<^verbatim>\<open>src/app.py\<close> are embedded as functions from the request
  inputs and the persistent state to a response and the new state.

  \<^item> A request body (\<^verbatim>\<open>request.json\<close>) is a JSON value as Python's parser returns it. A
    JSON number is a Python int (unbounded) or a Python float; a finite float is kept as
    the real it denotes, since the handlers only test it for zero and hand it to the
    database. An object is the association list of its members, looked up
    with \<^const>\<open>map_of\<close>. A body for which \<^verbatim>\<open>request.json\<close> itself raises behaves
    like \<open>null\<close> in both handlers (the exception is caught by the same handler).
  \<^item> Every Python exception the handler code can raise is a value of \<open>exn\<close>; the
    \<^verbatim>\<open>except Exception\<close> clause turns each of them into the 500 response.
  \<^item> The persistent state is the \<^verbatim>\<open>hazard_reports\<close> table (rows in insertion order and
    the AUTOINCREMENT counter) and the files on disk, a map from path to content.
    Whether the file system lets the upload folder be created and the file be opened
    for writing (it refuses a NUL in the name, a name that is too long, an empty folder
    name, a missing permission) is a parameter, \<open>fs\<close>. The database engine is assumed
    not to fail for reasons of the environment (disk, locks), and the table never runs
    out of ids.
  \<^item> The \<^verbatim>\<open>sqlite3\<close> module binds a Python int only within the signed 64-bit range and
    raises \<^verbatim>\<open>OverflowError\<close> otherwise; this is modelled for the fields of a submission and
    for the report id of the URL, which Flask's \<^verbatim>\<open>int\<close> converter passes
    whatever its size.
  \<^item> Strings are byte strings (the UTF-8 encoding of the text).
  \<^item> \<^verbatim>\<open>datetime.now()\<close> and SQLite's \<^verbatim>\<open>CURRENT_TIMESTAMP\<close> are inputs of the handler
    that reads them; \<^verbatim>\<open>base64.b64decode\<close> and the configuration (\<^verbatim>\<open>config.py\<close> is not
    part of the sources) are parameters.
\<close>

subsection \<open>JSON values and the Python operations used on them\<close>

datatype pyfloat = Finite real | PlusInfinity | MinusInfinity | NotANumber

datatype json =
    JNull
  | JBool bool
  | JInt int
  | JFloat pyfloat
  | JStr string
  | JArr "json list"
  | JObj "(string \<times> json) list"

datatype exn =
    TypeError
  | AttributeError
  | KeyError
  | ValueError
  | IndexError
  | OverflowError
  | OSError
  | DecodeError
  | DatabaseError

text \<open>Python truthiness (\<^verbatim>\<open>not v\<close> is its negation).\<close>

fun truthy :: "json \<Rightarrow> bool" where
  "truthy JNull = False"
| "truthy (JBool b) = b"
| "truthy (JInt n) = (n \<noteq> 0)"
| "truthy (JFloat x) = (x \<noteq> Finite 0)"
| "truthy (JStr s) = (s \<noteq> [])"
| "truthy (JArr xs) = (xs \<noteq> [])"
| "truthy (JObj kvs) = (kvs \<noteq> [])"

text \<open>\<^verbatim>\<open>field in data\<close>: key membership for a dict, element membership for a list,
  substring test for a str, \<^verbatim>\<open>TypeError\<close> for anything else.\<close>

fun py_contains :: "json \<Rightarrow> string \<Rightarrow> exn + bool" where
  "py_contains (JObj kvs) field = Inr (map_of kvs field \<noteq> None)"
| "py_contains (JArr xs) field = Inr (JStr field \<in> set xs)"
| "py_contains (JStr s) field = Inr (sublist field s)"
| "py_contains _ field = Inl TypeError"

text \<open>\<^verbatim>\<open>data[field]\<close> with a str index.\<close>

fun py_getitem :: "json \<Rightarrow> string \<Rightarrow> exn + json" where
  "py_getitem (JObj kvs) field =
     (case map_of kvs field of None \<Rightarrow> Inl KeyError | Some v \<Rightarrow> Inr v)"
| "py_getitem _ field = Inl TypeError"

text \<open>\<^verbatim>\<open>data.get(field)\<close>: only a dict has the method; a missing key gives \<^verbatim>\<open>None\<close>.\<close>

fun py_get :: "json \<Rightarrow> string \<Rightarrow> exn + json" where
  "py_get (JObj kvs) field =
     (case map_of kvs field of None \<Rightarrow> Inr JNull | Some v \<Rightarrow> Inr v)"
| "py_get _ field = Inl AttributeError"

text \<open>\<^verbatim>\<open>v.startswith(p)\<close>: only a str has the method.\<close>

fun py_startswith :: "json \<Rightarrow> string \<Rightarrow> exn + bool" where
  "py_startswith (JStr s) p = Inr (prefix p s)"
| "py_startswith _ p = Inl AttributeError"

subsection \<open>String splitting\<close>

text \<open>\<^verbatim>\<open>s.split(c)\<close> for a one-character separator: the pieces between all occurrences.\<close>

fun py_split :: "char \<Rightarrow> string \<Rightarrow> string list" where
  "py_split c [] = [[]]"
| "py_split c (x # xs) =
     (if x = c then [] # py_split c xs
      else (case py_split c xs of [] \<Rightarrow> [[x]] | w # ws \<Rightarrow> (x # w) # ws))"

text \<open>\<^verbatim>\<open>s.split(c, 1)\<close>: at most one split, at the first occurrence.\<close>

definition py_split1 :: "char \<Rightarrow> string \<Rightarrow> string list" where
  "py_split1 c s =
     (if c \<in> set s then [takeWhile (\<lambda>x. x \<noteq> c) s, tl (dropWhile (\<lambda>x. x \<noteq> c) s)]
      else [s])"

text \<open>\<^verbatim>\<open>xs[i]\<close> for a non-negative index.\<close>

definition py_index :: "'a list \<Rightarrow> nat \<Rightarrow> exn + 'a" where
  "py_index xs i = (if i < length xs then Inr (xs ! i) else Inl IndexError)"

text \<open>\<^verbatim>\<open>header, base64_data = s.split(',', 1)\<close>: unpacking needs exactly two pieces.\<close>

definition unpack2 :: "'a list \<Rightarrow> exn + ('a \<times> 'a)" where
  "unpack2 xs = (case xs of [a, b] \<Rightarrow> Inr (a, b) | _ \<Rightarrow> Inl ValueError)"

text \<open>\<^verbatim>\<open>header.split(';')[0].split('/')[1]\<close>\<close>

definition file_extension_of :: "string \<Rightarrow> exn + string" where
  "file_extension_of header =
     (case py_index (py_split CHR '';'' header) 0 of
        Inl e \<Rightarrow> Inl e
      | Inr mime \<Rightarrow> py_index (py_split CHR ''/'' mime) 1)"

subsection \<open>Clock readings and file names\<close>

record datetime =
  year :: nat
  month :: nat
  day :: nat
  hour :: nat
  minute :: nat
  second :: nat
  microsecond :: nat

definition digit :: "nat \<Rightarrow> char" where
  "digit n = ''0123456789'' ! (n mod 10)"

fun decimal :: "nat \<Rightarrow> string" where
  "decimal n = (if n < 10 then [digit n] else decimal (n div 10) @ [digit n])"

declare decimal.simps [simp del]

definition zfill :: "nat \<Rightarrow> string \<Rightarrow> string" where
  "zfill w s = replicate (w - length s) CHR ''0'' @ s"

text \<open>\<^verbatim>\<open>now.strftime('%Y%m%d_%H%M%S')\<close>\<close>

definition strftime_Ymd_HMS :: "datetime \<Rightarrow> string" where
  "strftime_Ymd_HMS d =
     zfill 4 (decimal (year d)) @ zfill 2 (decimal (month d)) @ zfill 2 (decimal (day d))
     @ ''_''
     @ zfill 2 (decimal (hour d)) @ zfill 2 (decimal (minute d)) @ zfill 2 (decimal (second d))"

text \<open>\<^verbatim>\<open>os.path.join(a, b)\<close> on a POSIX system.\<close>

definition os_path_join :: "string \<Rightarrow> string \<Rightarrow> string" where
  "os_path_join a b =
     (if prefix ''/'' b then b
      else if a = [] \<or> suffix ''/'' a then a @ b
      else a @ ''/'' @ b)"

text \<open>The two settings of \<^verbatim>\<open>app.config\<close> that the handlers read.\<close>

record config =
  UPLOAD_FOLDER_BEFORE :: string
  UPLOAD_FOLDER_AFTER :: string

subsection \<open>The persistent state\<close>

type_synonym byte = "8 word"

datatype sqlval = SqlNull | SqlInteger int | SqlReal pyfloat | SqlText string

text \<open>
  A row of \<^verbatim>\<open>hazard_reports\<close>. The column \<^verbatim>\<open>id\<close> is called \<open>rowid\<close> here (\<open>id\<close> is the
  identity function of HOL). The three nullable columns are options. \<open>description\<close>,
  \<open>latitude\<close> and \<open>longitude\<close> hold the parameter that was bound to the statement;
  the conversion SQLite applies when it stores it in a column of type TEXT or REAL (an
  integer latitude becomes a real, a numeric description becomes text) is not modelled.
\<close>

record report =
  rowid :: nat
  before_image :: string
  after_image :: "string option"
  description :: sqlval
  latitude :: sqlval
  longitude :: sqlval
  status :: string
  date_reported :: datetime
  date_resolved :: "datetime option"
  created_at :: datetime

record state =
  reports :: "report list"
  sqlite_sequence :: nat
  files :: "string \<rightharpoonup> byte list"

text \<open>
  \<^verbatim>\<open>init_db\<close> on a new database file: \<^verbatim>\<open>CREATE TABLE IF NOT EXISTS\<close> creates the empty
  table; the files on disk are whatever they are. (On a database that has the table
  already, \<^verbatim>\<open>init_db\<close> leaves \<^verbatim>\<open>hazard_reports\<close> as it is.)
\<close>

definition init_db :: "(string \<rightharpoonup> byte list) \<Rightarrow> state" where
  "init_db fs = \<lparr>reports = [], sqlite_sequence = 0, files = fs\<rparr>"

text \<open>
  The values the \<^verbatim>\<open>sqlite3\<close> module binds to a statement. An int outside the signed
  64-bit range raises \<^verbatim>\<open>OverflowError\<close>, a NaN is bound as NULL, a list or a dict is
  refused.
\<close>

definition sqlite_int_range :: "int \<Rightarrow> bool" where
  "sqlite_int_range n = (- (2 ^ 63) \<le> n \<and> n < 2 ^ 63)"

fun sql_adapt :: "json \<Rightarrow> exn + sqlval" where
  "sql_adapt JNull = Inr SqlNull"
| "sql_adapt (JBool b) = Inr (SqlInteger (if b then 1 else 0))"
| "sql_adapt (JInt n) = (if sqlite_int_range n then Inr (SqlInteger n) else Inl OverflowError)"
| "sql_adapt (JFloat x) = (if x = NotANumber then Inr SqlNull else Inr (SqlReal x))"
| "sql_adapt (JStr s) = Inr (SqlText s)"
| "sql_adapt (JArr xs) = Inl DatabaseError"
| "sql_adapt (JObj kvs) = Inl DatabaseError"

definition max_rowid :: "report list \<Rightarrow> nat" where
  "max_rowid rows = fold max (map rowid rows) 0"

text \<open>
  The \<^verbatim>\<open>INSERT\<close> of \<^verbatim>\<open>report_hazard\<close>. \<^verbatim>\<open>AUTOINCREMENT\<close> gives the new row an id one larger than
  the largest id the table has ever held; the \<^verbatim>\<open>NOT NULL\<close> columns refuse a null. The result
  is \<^verbatim>\<open>cursor.lastrowid\<close> and the new state.
\<close>

definition insert_report ::
  "string \<Rightarrow> json \<Rightarrow> json \<Rightarrow> json \<Rightarrow> datetime \<Rightarrow> datetime \<Rightarrow> state \<Rightarrow> exn + (nat \<times> state)" where
  "insert_report filename descr lat lon now current_timestamp s =
     (case sql_adapt descr of Inl e \<Rightarrow> Inl e | Inr d \<Rightarrow>
      (case sql_adapt lat of Inl e \<Rightarrow> Inl e | Inr la \<Rightarrow>
       (case sql_adapt lon of Inl e \<Rightarrow> Inl e | Inr lo \<Rightarrow>
          if d = SqlNull \<or> la = SqlNull \<or> lo = SqlNull then Inl DatabaseError
          else
            let new_id = Suc (max (sqlite_sequence s) (max_rowid (reports s)));
                row = \<lparr>rowid = new_id, before_image = filename, after_image = None,
                       description = d, latitude = la, longitude = lo,
                       status = ''Pending'', date_reported = now, date_resolved = None,
                       created_at = current_timestamp\<rparr>
            in Inr (new_id, s\<lparr>reports := reports s @ [row], sqlite_sequence := new_id\<rparr>))))"

text \<open>
  The \<^verbatim>\<open>UPDATE ... WHERE id = ?\<close> of \<^verbatim>\<open>resolve_hazard\<close>. Binding a report id outside the
  signed 64-bit range raises \<^verbatim>\<open>OverflowError\<close> and nothing is updated.
\<close>

definition update_resolved :: "string \<Rightarrow> datetime \<Rightarrow> nat \<Rightarrow> state \<Rightarrow> exn + state" where
  "update_resolved filename now report_id s =
     (if \<not> sqlite_int_range (int report_id) then Inl OverflowError
      else Inr (s\<lparr>reports :=
         map (\<lambda>r. if rowid r = report_id
                   then r\<lparr>after_image := Some filename, status := ''Resolved'',
                          date_resolved := Some now\<rparr>
                   else r)
             (reports s)\<rparr>))"

text \<open>
  \<^verbatim>\<open>SELECT * FROM hazard_reports ORDER BY date_reported DESC\<close>. SQLite compares the stored
  ISO texts, which order as the clock readings do, field by field. The order among rows
  with equal \<open>date_reported\<close> is not fixed by SQL; SQLite's sorter keeps them in
  insertion order, and so does this model (a stable sort of the reversed table,
  reversed).
\<close>

definition dt_key :: "datetime \<Rightarrow> nat \<times> nat \<times> nat \<times> nat \<times> nat \<times> nat \<times> nat" where
  "dt_key d = (year d, month d, day d, hour d, minute d, second d, microsecond d)"

definition select_order_by_date_reported_desc :: "state \<Rightarrow> report list" where
  "select_order_by_date_reported_desc s =
     rev (sort_key (\<lambda>r. dt_key (date_reported r)) (rev (reports s)))"

subsection \<open>Responses\<close>

text \<open>
  A JSON response is its body and its HTTP status; \<^verbatim>\<open>jsonify(...)\<close> alone has status 200.
  The bodies are \<^verbatim>\<open>{'error': msg}\<close>, \<^verbatim>\<open>{'success': True, 'report_id': n, 'message': msg}\<close>
  and \<^verbatim>\<open>{'success': True, 'message': msg}\<close>.
\<close>

datatype body = ErrorBody string | SuccessReport nat string | SuccessMessage string

type_synonym response = "body \<times> nat"

definition missing_field :: "string \<Rightarrow> response" where
  "missing_field field = (ErrorBody (''Missing required field: '' @ field), 400)"

definition invalid_image_format :: response where
  "invalid_image_format = (ErrorBody ''Invalid image format'', 400)"

definition invalid_after_image :: response where
  "invalid_after_image = (ErrorBody ''Invalid after image'', 400)"

definition unauthorized :: response where
  "unauthorized = (ErrorBody ''Unauthorized'', 401)"

definition internal_server_error :: response where
  "internal_server_error = (ErrorBody ''Internal server error'', 500)"

subsection \<open>Saving an image\<close>

text \<open>
  Lines 93--104 of \<^verbatim>\<open>report_hazard\<close> and lines 190--201 of \<^verbatim>\<open>resolve_hazard\<close>, which differ in
  the folder and in the stem of the file name only. \<^verbatim>\<open>open(filepath, 'wb')\<close> creates or
  empties the file before \<^verbatim>\<open>b64decode\<close> runs, so a payload that does not decode leaves an
  empty file. \<open>dec\<close> is \<^verbatim>\<open>base64.b64decode\<close>; \<open>None\<close> stands for its exception.
  \<open>fs folder filepath\<close> says whether \<^verbatim>\<open>os.makedirs(folder, exist_ok=True)\<close> and
  \<^verbatim>\<open>open(filepath, 'wb')\<close> succeed; when one of them raises, nothing is written.
\<close>

definition save_image ::
  "(string \<Rightarrow> byte list option) \<Rightarrow> (string \<Rightarrow> string \<Rightarrow> bool) \<Rightarrow> string \<Rightarrow> string
     \<Rightarrow> datetime \<Rightarrow> json \<Rightarrow> state \<Rightarrow> (exn + string) \<times> state" where
  "save_image dec fs folder stem now image_data s =
     (case image_data of
        JStr u \<Rightarrow>
          (case unpack2 (py_split1 CHR '','' u) of
             Inl e \<Rightarrow> (Inl e, s)
           | Inr (header, base64_data) \<Rightarrow>
               (case file_extension_of header of
                  Inl e \<Rightarrow> (Inl e, s)
                | Inr file_extension \<Rightarrow>
                    let filename = stem @ ''_'' @ strftime_Ymd_HMS now @ ''.'' @ file_extension;
                        filepath = os_path_join folder filename
                    in if \<not> fs folder filepath then (Inl OSError, s)
                       else
                         (case dec base64_data of
                            None \<Rightarrow> (Inl DecodeError, s\<lparr>files := (files s)(filepath \<mapsto> [])\<rparr>)
                          | Some bytes \<Rightarrow>
                              (Inr filename, s\<lparr>files := (files s)(filepath \<mapsto> bytes)\<rparr>))))
      | _ \<Rightarrow> (Inl AttributeError, s))"

subsection \<open>POST /api/report\<close>

definition required_fields :: "string list" where
  "required_fields = [''before_image'', ''description'', ''latitude'', ''longitude'']"

text \<open>The test of line 86, \<^verbatim>\<open>field not in data or not data[field]\<close>, on a dict.\<close>

definition absent_or_empty :: "(string \<times> json) list \<Rightarrow> string \<Rightarrow> bool" where
  "absent_or_empty kvs field =
     (case map_of kvs field of None \<Rightarrow> True | Some v \<Rightarrow> \<not> truthy v)"

text \<open>The validation loop: the first field that is not in \<open>data\<close> or is falsy, if any.\<close>

fun check_required :: "json \<Rightarrow> string list \<Rightarrow> exn + string option" where
  "check_required data [] = Inr None"
| "check_required data (field # rest) =
     (case py_contains data field of
        Inl e \<Rightarrow> Inl e
      | Inr False \<Rightarrow> Inr (Some field)
      | Inr True \<Rightarrow>
          (case py_getitem data field of
             Inl e \<Rightarrow> Inl e
           | Inr v \<Rightarrow> if \<not> truthy v then Inr (Some field) else check_required data rest))"

text \<open>
  The body of the \<^verbatim>\<open>try\<close>. \<open>t_file\<close> is the clock reading of line 95, \<open>t_row\<close> the one
  of line 121 and \<open>t_created\<close> the \<^verbatim>\<open>CURRENT_TIMESTAMP\<close> of the insertion.
\<close>

definition report_hazard_try ::
  "(string \<Rightarrow> byte list option) \<Rightarrow> (string \<Rightarrow> string \<Rightarrow> bool) \<Rightarrow> config
     \<Rightarrow> datetime \<Rightarrow> datetime \<Rightarrow> datetime \<Rightarrow> json \<Rightarrow> state \<Rightarrow> (exn + response) \<times> state" where
  "report_hazard_try dec fs cfg t_file t_row t_created data s =
     (case check_required data required_fields of
        Inl e \<Rightarrow> (Inl e, s)
      | Inr (Some field) \<Rightarrow> (Inr (missing_field field), s)
      | Inr None \<Rightarrow>
          (case py_getitem data ''before_image'' of
             Inl e \<Rightarrow> (Inl e, s)
           | Inr before_image_data \<Rightarrow>
               (case py_startswith before_image_data ''data:image'' of
                  Inl e \<Rightarrow> (Inl e, s)
                | Inr False \<Rightarrow> (Inr invalid_image_format, s)
                | Inr True \<Rightarrow>
                    (case save_image dec fs (UPLOAD_FOLDER_BEFORE cfg) ''hazard'' t_file
                            before_image_data s of
                       (Inl e, s1) \<Rightarrow> (Inl e, s1)
                     | (Inr filename, s1) \<Rightarrow>
                         (case py_getitem data ''description'' of
                            Inl e \<Rightarrow> (Inl e, s1)
                          | Inr descr \<Rightarrow>
                         (case py_getitem data ''latitude'' of
                            Inl e \<Rightarrow> (Inl e, s1)
                          | Inr lat \<Rightarrow>
                         (case py_getitem data ''longitude'' of
                            Inl e \<Rightarrow> (Inl e, s1)
                          | Inr lon \<Rightarrow>
                         (case insert_report filename descr lat lon t_row t_created s1 of
                            Inl e \<Rightarrow> (Inl e, s1)
                          | Inr (report_id, s2) \<Rightarrow>
                              (Inr (SuccessReport report_id ''Hazard reported successfully'', 200),
                               s2)))))))))"

text \<open>\<^verbatim>\<open>except Exception\<close>: any exception becomes the 500 response; what was written stays.\<close>

definition catch_all :: "(exn + response) \<times> state \<Rightarrow> response \<times> state" where
  "catch_all r = (case r of (Inl e, s) \<Rightarrow> (internal_server_error, s) | (Inr resp, s) \<Rightarrow> (resp, s))"

definition report_hazard ::
  "(string \<Rightarrow> byte list option) \<Rightarrow> (string \<Rightarrow> string \<Rightarrow> bool) \<Rightarrow> config
     \<Rightarrow> datetime \<Rightarrow> datetime \<Rightarrow> datetime \<Rightarrow> json \<Rightarrow> state \<Rightarrow> response \<times> state" where
  "report_hazard dec fs cfg t_file t_row t_created data s =
     catch_all (report_hazard_try dec fs cfg t_file t_row t_created data s)"

subsection \<open>POST /admin/resolve/<int:report_id>\<close>

text \<open>The session is a dict; \<^verbatim>\<open>session.get(k)\<close> is \<^verbatim>\<open>None\<close> for a missing key.\<close>

type_synonym session = "string \<rightharpoonup> json"

definition session_get :: "session \<Rightarrow> string \<Rightarrow> json" where
  "session_get sess k = (case sess k of None \<Rightarrow> JNull | Some v \<Rightarrow> v)"

definition resolve_hazard_try ::
  "(string \<Rightarrow> byte list option) \<Rightarrow> (string \<Rightarrow> string \<Rightarrow> bool) \<Rightarrow> config
     \<Rightarrow> datetime \<Rightarrow> datetime \<Rightarrow> nat \<Rightarrow> json \<Rightarrow> state \<Rightarrow> (exn + response) \<times> state" where
  "resolve_hazard_try dec fs cfg t_file t_row report_id data s =
     (case py_get data ''after_image'' of
        Inl e \<Rightarrow> (Inl e, s)
      | Inr after_image_data \<Rightarrow>
          if \<not> truthy after_image_data then (Inr invalid_after_image, s)
          else
            (case py_startswith after_image_data ''data:image'' of
               Inl e \<Rightarrow> (Inl e, s)
             | Inr False \<Rightarrow> (Inr invalid_after_image, s)
             | Inr True \<Rightarrow>
                 (case save_image dec fs (UPLOAD_FOLDER_AFTER cfg) ''resolved'' t_file
                         after_image_data s of
                    (Inl e, s1) \<Rightarrow> (Inl e, s1)
                  | (Inr filename, s1) \<Rightarrow>
                      (case update_resolved filename t_row report_id s1 of
                         Inl e \<Rightarrow> (Inl e, s1)
                       | Inr s2 \<Rightarrow>
                           (Inr (SuccessMessage ''Hazard marked as resolved'', 200), s2)))))"

definition resolve_hazard ::
  "(string \<Rightarrow> byte list option) \<Rightarrow> (string \<Rightarrow> string \<Rightarrow> bool) \<Rightarrow> config
     \<Rightarrow> datetime \<Rightarrow> datetime \<Rightarrow> session \<Rightarrow> nat \<Rightarrow> json \<Rightarrow> state \<Rightarrow> response \<times> state" where
  "resolve_hazard dec fs cfg t_file t_row sess report_id data s =
     (if \<not> truthy (session_get sess ''admin_logged_in'') then (unauthorized, s)
      else catch_all (resolve_hazard_try dec fs cfg t_file t_row report_id data s))"

subsection \<open>GET /history, GET /admin/dashboard, GET /uploads/before/<filename>\<close>

text \<open>What the handler passes to the template as \<open>reports\<close>.\<close>

definition history :: "state \<Rightarrow> report list" where
  "history s = select_order_by_date_reported_desc s"

datatype page = Redirect string | Dashboard "report list"

definition admin_dashboard :: "session \<Rightarrow> state \<Rightarrow> page" where
  "admin_dashboard sess s =
     (if \<not> truthy (session_get sess ''admin_logged_in'') then Redirect ''admin_login''
      else Dashboard (select_order_by_date_reported_desc s))"

text \<open>
  \<^verbatim>\<open>send_from_directory(folder, filename)\<close>: the content of the file at the joined path, 404
  when there is none. The route gives a non-empty name without a slash; the names
  \<^verbatim>\<open>.\<close> and \<^verbatim>\<open>..\<close> do not name a file of the folder.
\<close>

datatype file_response = FileContent "byte list" | NotFound

definition send_from_directory :: "string \<Rightarrow> string \<Rightarrow> state \<Rightarrow> file_response" where
  "send_from_directory folder filename s =
     (if filename = ''.'' \<or> filename = ''..'' \<or> CHR ''/'' \<in> set filename then NotFound
      else (case files s (os_path_join folder filename) of
              None \<Rightarrow> NotFound
            | Some bytes \<Rightarrow> FileContent bytes))"

definition uploaded_before_file :: "config \<Rightarrow> string \<Rightarrow> state \<Rightarrow> file_response" where
  "uploaded_before_file cfg filename s = send_from_directory (UPLOAD_FOLDER_BEFORE cfg) filename s"

definition uploaded_after_file :: "config \<Rightarrow> string \<Rightarrow> state \<Rightarrow> file_response" where
  "uploaded_after_file cfg filename s = send_from_directory (UPLOAD_FOLDER_AFTER cfg) filename s"

subsection \<open>A base64 decoder\<close>

text \<open>
  The decoder of the Python library in its default, lenient mode, used where a concrete
  decoder is needed: characters outside the alphabet are skipped, decoding stops at the
  padding that completes a group of four, and an incomplete group at the end is an error.
  A str with a non-ASCII character is refused.
\<close>

definition b64_alphabet :: string where
  "b64_alphabet = ''ABCDEFGHIJKLMNOPQRSTUVWXYZabcdefghijklmnopqrstuvwxyz0123456789+/''"

fun index_of :: "'a \<Rightarrow> 'a list \<Rightarrow> nat option" where
  "index_of c [] = None"
| "index_of c (x # xs) = (if x = c then Some 0 else map_option Suc (index_of c xs))"

fun a2b_base64 :: "nat \<Rightarrow> nat \<Rightarrow> nat \<Rightarrow> byte list \<Rightarrow> string \<Rightarrow> byte list option" where
  "a2b_base64 quad_pos leftchar pads out [] = (if quad_pos \<noteq> 0 then None else Some out)"
| "a2b_base64 quad_pos leftchar pads out (c # cs) =
     (if c = CHR ''='' then
        (if 2 \<le> quad_pos \<and> 4 \<le> quad_pos + (pads + 1) then Some out
         else a2b_base64 quad_pos leftchar (if 2 \<le> quad_pos then pads + 1 else pads) out cs)
      else
        (case index_of c b64_alphabet of
           None \<Rightarrow> a2b_base64 quad_pos leftchar pads out cs
         | Some v \<Rightarrow>
             if quad_pos = 0 then a2b_base64 1 v 0 out cs
             else if quad_pos = 1 then
               a2b_base64 2 (v mod 16) 0 (out @ [of_nat (leftchar * 4 + v div 16)]) cs
             else if quad_pos = 2 then
               a2b_base64 3 (v mod 4) 0 (out @ [of_nat (leftchar * 16 + v div 4)]) cs
             else a2b_base64 0 0 0 (out @ [of_nat (leftchar * 64 + v)]) cs))"

definition b64decode :: "string \<Rightarrow> byte list option" where
  "b64decode s =
     (if \<exists>c \<in> set s. 128 \<le> (of_char c :: nat) then None else a2b_base64 0 0 0 [] s)"

subsection \<open>Reachable states\<close>

text \<open>
  The states the application can be in: a database initialised by \<^verbatim>\<open>init_db\<close>, then any
  sequence of the two requests that write, with any inputs.
\<close>

inductive reachable :: "state \<Rightarrow> bool" where
  init: "reachable (init_db fs)"
| report: "reachable s \<Longrightarrow>
     reachable (snd (report_hazard dec fs cfg t_file t_row t_created data s))"
| resolve: "reachable s \<Longrightarrow>
     reachable (snd (resolve_hazard dec fs cfg t_file t_row sess report_id data s))"

subsection \<open>Example inputs\<close>

text \<open>
  A file system for the examples: it accepts a non-empty folder name and a path without
  NUL whose components have at most 255 bytes.
\<close>

definition example_fs :: "string \<Rightarrow> string \<Rightarrow> bool" where
  "example_fs folder filepath =
     (folder \<noteq> [] \<and> CHR 0x00 \<notin> set filepath
      \<and> list_all (\<lambda>c. length c \<le> 255) (py_split CHR ''/'' filepath))"

definition example_config :: config where
  "example_config =
     \<lparr>UPLOAD_FOLDER_BEFORE = ''uploads/before'', UPLOAD_FOLDER_AFTER = ''uploads/after''\<rparr>"

definition example_time :: datetime where
  "example_time =
     \<lparr>year = 2024, month = 5, day = 17, hour = 9, minute = 3, second = 7, microsecond = 120\<rparr>"

definition example_later :: datetime where
  "example_later =
     \<lparr>year = 2024, month = 5, day = 18, hour = 14, minute = 30, second = 0, microsecond = 0\<rparr>"

definition example_report :: "string \<Rightarrow> json" where
  "example_report uri =
     JObj [(''description'', JStr ''pothole''), (''latitude'', JFloat (Finite 12.9)),
           (''longitude'', JFloat (Finite 77.6)), (''before_image'', JStr uri)]"

definition example_resolution :: json where
  "example_resolution = JObj [(''after_image'', JStr ''data:image/png;base64,Qg=='')]"

text \<open>The session after a successful login, and the session of a visitor.\<close>

definition admin_session :: session where
  "admin_session =
     [''admin_logged_in'' \<mapsto> JBool True, ''admin_username'' \<mapsto> JStr ''admin'']"

definition visitor_session :: session where
  "visitor_session = Map.empty"

definition example_latest :: datetime where
  "example_latest =
     \<lparr>year = 2024, month = 6, day = 2, hour = 8, minute = 15, second = 42, microsecond = 7\<rparr>"

text \<open>The table after one submission, and after that report has been resolved.\<close>

definition example_pending :: state where
  "example_pending =
     snd (report_hazard b64decode example_fs example_config example_time example_time example_time
            (example_report ''data:image/jpeg;base64,QQ=='') (init_db Map.empty))"

definition example_resolved :: state where
  "example_resolved =
     snd (resolve_hazard b64decode example_fs example_config example_later example_later admin_session 1
            example_resolution example_pending)"

text \<open>The table after a second submission.\<close>

definition example_two_reports :: state where
  "example_two_reports =
     snd (report_hazard b64decode example_fs example_config example_later example_later example_later
            (example_report ''data:image/png;base64,Qg=='') example_pending)"

text \<open>The table after a second submission handled at the same clock reading as the first.\<close>

definition example_same_instant :: state where
  "example_same_instant =
     snd (report_hazard b64decode example_fs example_config example_time example_time example_time
            (example_report ''data:image/png;base64,Qg=='') example_pending)"

subsection \<open>The lifecycle condition of a row\<close>

text \<open>\<open>after_image\<close> and \<open>date_resolved\<close> are both present exactly when the status is \<open>Resolved\<close>.\<close>

abbreviation resolved_iff_complete :: "report \<Rightarrow> bool" where
  "resolved_iff_complete r \<equiv>
     ((after_image r \<noteq> None \<and> date_resolved r \<noteq> None) \<longleftrightarrow> status r = ''Resolved'')"

section \<open>Properties\<close>

subsection \<open>Splitting and the file extension\<close>

lemma py_split_nonempty: "py_split c s \<noteq> []"
  by (induction s) (auto split: list.splits)

lemma py_split_append:
  "c \<notin> set a \<Longrightarrow> py_split c (a @ c # b) = a # py_split c b"
  by (induction a) auto

lemma hd_py_split: "hd (py_split c s) = takeWhile (\<lambda>x. x \<noteq> c) s"
  by (induction s) (auto split: list.splits simp: py_split_nonempty)

lemma py_split_0: "py_index (py_split c s) 0 = Inr (takeWhile (\<lambda>x. x \<noteq> c) s)"
  using py_split_nonempty[of c s] hd_py_split[of c s]
  by (cases "py_split c s") (auto simp: py_index_def)

lemma py_split_1:
  "c \<notin> set a \<Longrightarrow> py_index (py_split c (a @ c # b)) 1 = Inr (takeWhile (\<lambda>x. x \<noteq> c) b)"
  using py_split_nonempty[of c b] hd_py_split[of c b]
  by (cases "py_split c b") (auto simp: py_index_def py_split_append)

lemma py_split_no_sep: "c \<notin> set s \<Longrightarrow> py_split c s = [s]"
  by (induction s) auto

lemma py_split_1_none:
  "c \<notin> set s \<Longrightarrow> py_index (py_split c s) 1 = Inl IndexError"
  by (simp add: py_split_no_sep py_index_def)

lemma py_split1_append:
  "c \<notin> set a \<Longrightarrow> py_split1 c (a @ c # b) = [a, b]"
  by (induction a) (auto simp: py_split1_def)

lemma py_split1_no_sep: "c \<notin> set s \<Longrightarrow> py_split1 c s = [s]"
  by (simp add: py_split1_def)

text \<open>The extension is the text between the first slash and the next slash or semicolon.\<close>

lemma file_extension_of_mime:
  "file_extension_of (''data:image/'' @ sub) =
     Inr (takeWhile (\<lambda>x. x \<noteq> CHR ''/'') (takeWhile (\<lambda>x. x \<noteq> CHR '';'') sub))"
proof -
  let ?m = "takeWhile (\<lambda>x. x \<noteq> CHR '';'') sub"
  have a: "takeWhile (\<lambda>x. x \<noteq> CHR '';'') (''data:image/'' @ sub) = ''data:image'' @ CHR ''/'' # ?m"
    by simp
  have b: "py_index (py_split CHR ''/'' (''data:image'' @ CHR ''/'' # ?m)) 1 =
           Inr (takeWhile (\<lambda>x. x \<noteq> CHR ''/'') ?m)"
    by (rule py_split_1) simp
  show ?thesis
    by (simp only: file_extension_of_def py_split_0 a b sum.case)
qed

lemma file_extension_of_no_slash:
  assumes "CHR ''/'' \<notin> set (takeWhile (\<lambda>x. x \<noteq> CHR '';'') header)"
  shows "file_extension_of header = Inl IndexError"
  by (simp only: file_extension_of_def py_split_0 sum.case py_split_1_none [OF assms])

lemma save_image_ok:
  assumes "CHR '','' \<notin> set sub" "dec payload = Some bytes"
    and "filename = stem @ ''_'' @ strftime_Ymd_HMS now @ ''.'' @
            takeWhile (\<lambda>x. x \<noteq> CHR ''/'') (takeWhile (\<lambda>x. x \<noteq> CHR '';'') sub)"
    and "fs folder (os_path_join folder filename)"
  shows "save_image dec fs folder stem now
           (JStr (''data:image/'' @ sub @ '';base64,'' @ payload)) s =
    (Inr filename, s\<lparr>files := (files s)(os_path_join folder filename \<mapsto> bytes)\<rparr>)"
proof -
  have "py_split1 CHR '','' ((''data:image/'' @ sub @ '';base64'') @ CHR '','' # payload) =
        [''data:image/'' @ sub @ '';base64'', payload]"
    using assms(1) by (intro py_split1_append) simp
  then have sp: "py_split1 CHR '','' (''data:image/'' @ sub @ '';base64,'' @ payload) =
        [''data:image/'' @ sub @ '';base64'', payload]"
    by simp
  have ext: "file_extension_of (''data:image/'' @ sub @ '';base64'') =
        Inr (takeWhile (\<lambda>x. x \<noteq> CHR ''/'') (takeWhile (\<lambda>x. x \<noteq> CHR '';'') sub))"
    using file_extension_of_mime[of "sub @ '';base64''"] by (simp add: takeWhile_tail)
  show ?thesis
    unfolding save_image_def
    using assms(4)
    by (simp add: sp unpack2_def ext assms(2) assms(3) Let_def del: append.simps)
qed

text \<open>When the file system refuses the path, nothing is written.\<close>

lemma save_image_refused:
  assumes "CHR '','' \<notin> set sub"
    and "filename = stem @ ''_'' @ strftime_Ymd_HMS now @ ''.'' @
            takeWhile (\<lambda>x. x \<noteq> CHR ''/'') (takeWhile (\<lambda>x. x \<noteq> CHR '';'') sub)"
    and "\<not> fs folder (os_path_join folder filename)"
  shows "save_image dec fs folder stem now
           (JStr (''data:image/'' @ sub @ '';base64,'' @ payload)) s = (Inl OSError, s)"
proof -
  have "py_split1 CHR '','' ((''data:image/'' @ sub @ '';base64'') @ CHR '','' # payload) =
        [''data:image/'' @ sub @ '';base64'', payload]"
    using assms(1) by (intro py_split1_append) simp
  then have sp: "py_split1 CHR '','' (''data:image/'' @ sub @ '';base64,'' @ payload) =
        [''data:image/'' @ sub @ '';base64'', payload]"
    by simp
  have ext: "file_extension_of (''data:image/'' @ sub @ '';base64'') =
        Inr (takeWhile (\<lambda>x. x \<noteq> CHR ''/'') (takeWhile (\<lambda>x. x \<noteq> CHR '';'') sub))"
    using file_extension_of_mime[of "sub @ '';base64''"] by (simp add: takeWhile_tail)
  show ?thesis
    unfolding save_image_def
    using assms(3)
    by (simp add: sp unpack2_def ext assms(2) Let_def del: append.simps)
qed

subsection \<open>The validation loop and the insertion\<close>

lemma check_required_obj:
  "check_required (JObj kvs) fs = Inr (List.find (absent_or_empty kvs) fs)"
  by (induction fs) (auto simp: absent_or_empty_def split: option.splits)




text \<open>What a submission with four usable fields and a well-formed image does.\<close>

lemma report_hazard_success:
  assumes img: "map_of kvs ''before_image'' =
                  Some (JStr (''data:image/'' @ sub @ '';base64,'' @ payload))"
    and sub: "CHR '','' \<notin> set sub"
    and dec: "dec payload = Some bytes"
    and d: "map_of kvs ''description'' = Some d" "truthy d" "sql_adapt d = Inr dv"
           "dv \<noteq> SqlNull"
    and la: "map_of kvs ''latitude'' = Some la" "truthy la" "sql_adapt la = Inr lav"
           "lav \<noteq> SqlNull"
    and lo: "map_of kvs ''longitude'' = Some lo" "truthy lo" "sql_adapt lo = Inr lov"
           "lov \<noteq> SqlNull"
    and fn: "filename = ''hazard'' @ ''_'' @ strftime_Ymd_HMS t_file @ ''.'' @
               takeWhile (\<lambda>x. x \<noteq> CHR ''/'') (takeWhile (\<lambda>x. x \<noteq> CHR '';'') sub)"
    and fs: "fs (UPLOAD_FOLDER_BEFORE cfg) (os_path_join (UPLOAD_FOLDER_BEFORE cfg) filename)"
    and n: "n = Suc (max (sqlite_sequence s) (max_rowid (reports s)))"
  shows "report_hazard dec fs cfg t_file t_row t_created (JObj kvs) s =
    ((SuccessReport n ''Hazard reported successfully'', 200),
     s\<lparr>files := (files s)(os_path_join (UPLOAD_FOLDER_BEFORE cfg) filename \<mapsto> bytes),
       reports := reports s @
         [\<lparr>rowid = n, before_image = filename, after_image = None,
           description = dv, latitude = lav, longitude = lov,
           status = ''Pending'', date_reported = t_row, date_resolved = None,
           created_at = t_created\<rparr>],
       sqlite_sequence := n\<rparr>)"
proof -
  have chk: "check_required (JObj kvs) required_fields = Inr None"
    using img d la lo
    by (simp add: check_required_obj required_fields_def absent_or_empty_def)
  have pre: "prefix ''data:image'' (''data:image/'' @ sub @ '';base64,'' @ payload)"
    by simp
  have sv: "save_image dec fs (UPLOAD_FOLDER_BEFORE cfg) ''hazard'' t_file
      (JStr (''data:image/'' @ sub @ '';base64,'' @ payload)) s =
      (Inr filename,
       s\<lparr>files := (files s)(os_path_join (UPLOAD_FOLDER_BEFORE cfg) filename \<mapsto> bytes)\<rparr>)"
    by (rule save_image_ok [where sub = sub and dec = dec and payload = payload
          and bytes = bytes and stem = "''hazard''" and now = t_file and filename = filename
          and fs = fs, OF sub dec fn fs])
  show ?thesis
    unfolding report_hazard_def report_hazard_try_def catch_all_def
    by (simp add: chk img pre sv d la lo insert_report_def n del: append.simps)
qed

text \<open>
  What the same submission does when the database refuses one of the three values: the
  answer is 500, no row is inserted, and the file that was written stays.
\<close>

lemma report_hazard_bind_error:
  assumes img: "map_of kvs ''before_image'' =
                  Some (JStr (''data:image/'' @ sub @ '';base64,'' @ payload))"
    and sub: "CHR '','' \<notin> set sub"
    and dec: "dec payload = Some bytes"
    and d: "map_of kvs ''description'' = Some d" "truthy d"
    and la: "map_of kvs ''latitude'' = Some la" "truthy la"
    and lo: "map_of kvs ''longitude'' = Some lo" "truthy lo"
    and bad: "insert_report filename d la lo t_row t_created
               (s\<lparr>files := (files s)(os_path_join (UPLOAD_FOLDER_BEFORE cfg) filename \<mapsto> bytes)\<rparr>)
              = Inl e"
    and fn: "filename = ''hazard'' @ ''_'' @ strftime_Ymd_HMS t_file @ ''.'' @
               takeWhile (\<lambda>x. x \<noteq> CHR ''/'') (takeWhile (\<lambda>x. x \<noteq> CHR '';'') sub)"
    and fs: "fs (UPLOAD_FOLDER_BEFORE cfg) (os_path_join (UPLOAD_FOLDER_BEFORE cfg) filename)"
  shows "report_hazard dec fs cfg t_file t_row t_created (JObj kvs) s =
    (internal_server_error,
     s\<lparr>files := (files s)(os_path_join (UPLOAD_FOLDER_BEFORE cfg) filename \<mapsto> bytes)\<rparr>)"
proof -
  have chk: "check_required (JObj kvs) required_fields = Inr None"
    using img d la lo
    by (simp add: check_required_obj required_fields_def absent_or_empty_def)
  have pre: "prefix ''data:image'' (''data:image/'' @ sub @ '';base64,'' @ payload)"
    by simp
  have sv: "save_image dec fs (UPLOAD_FOLDER_BEFORE cfg) ''hazard'' t_file
      (JStr (''data:image/'' @ sub @ '';base64,'' @ payload)) s =
      (Inr filename,
       s\<lparr>files := (files s)(os_path_join (UPLOAD_FOLDER_BEFORE cfg) filename \<mapsto> bytes)\<rparr>)"
    by (rule save_image_ok [where sub = sub and dec = dec and payload = payload
          and bytes = bytes and stem = "''hazard''" and now = t_file and filename = filename
          and fs = fs, OF sub dec fn fs])
  show ?thesis
    unfolding report_hazard_def report_hazard_try_def catch_all_def
    by (simp add: chk img pre sv d la lo bad del: append.simps)
qed

subsection \<open>The examples, evaluated\<close>

lemma reports_example_pending:
  "reports example_pending =
     [\<lparr>rowid = 1, before_image = ''hazard_20240517_090307.jpeg'', after_image = None,
       description = SqlText ''pothole'', latitude = SqlReal (Finite 12.9), longitude = SqlReal (Finite 77.6),
       status = ''Pending'', date_reported = example_time, date_resolved = None,
       created_at = example_time\<rparr>]"
  by code_simp

lemma reports_example_resolved:
  "reports example_resolved =
     [\<lparr>rowid = 1, before_image = ''hazard_20240517_090307.jpeg'',
       after_image = Some ''resolved_20240518_143000.png'',
       description = SqlText ''pothole'', latitude = SqlReal (Finite 12.9), longitude = SqlReal (Finite 77.6),
       status = ''Resolved'', date_reported = example_time, date_resolved = Some example_later,
       created_at = example_time\<rparr>]"
  by code_simp

lemma reports_example_two_reports:
  "reports example_two_reports =
     [\<lparr>rowid = 1, before_image = ''hazard_20240517_090307.jpeg'', after_image = None,
       description = SqlText ''pothole'', latitude = SqlReal (Finite 12.9), longitude = SqlReal (Finite 77.6),
       status = ''Pending'', date_reported = example_time, date_resolved = None,
       created_at = example_time\<rparr>,
      \<lparr>rowid = 2, before_image = ''hazard_20240518_143000.png'', after_image = None,
       description = SqlText ''pothole'', latitude = SqlReal (Finite 12.9), longitude = SqlReal (Finite 77.6),
       status = ''Pending'', date_reported = example_later, date_resolved = None,
       created_at = example_later\<rparr>]"
  by code_simp

lemma b64decode_examples:
  "b64decode ''QQ=='' = Some [65]" "b64decode ''Qg=='' = Some [66]"
  by code_simp+

lemma strftime_examples:
  "strftime_Ymd_HMS example_time = ''20240517_090307''"
  "strftime_Ymd_HMS example_later = ''20240518_143000''"
  "strftime_Ymd_HMS example_latest = ''20240602_081542''"
  by code_simp+


lemma example_session_truthy: "truthy (session_get admin_session ''admin_logged_in'')"
  by (simp add: session_get_def admin_session_def)

subsection \<open>A resolution with a valid session and a well-formed image\<close>

lemma resolve_hazard_saved:
  assumes sess: "truthy (session_get sess ''admin_logged_in'')"
    and img: "map_of kvs ''after_image'' =
                Some (JStr (''data:image/'' @ sub @ '';base64,'' @ payload))"
    and sub: "CHR '','' \<notin> set sub"
    and dec: "dec payload = Some bytes"
    and fn: "filename = ''resolved'' @ ''_'' @ strftime_Ymd_HMS t_file @ ''.'' @
               takeWhile (\<lambda>x. x \<noteq> CHR ''/'') (takeWhile (\<lambda>x. x \<noteq> CHR '';'') sub)"
    and fs: "fs (UPLOAD_FOLDER_AFTER cfg) (os_path_join (UPLOAD_FOLDER_AFTER cfg) filename)"
    and saved: "saved = s\<lparr>files := (files s)(os_path_join (UPLOAD_FOLDER_AFTER cfg) filename \<mapsto> bytes)\<rparr>"
  shows "resolve_hazard dec fs cfg t_file t_row sess report_id (JObj kvs) s =
    (case update_resolved filename t_row report_id saved of
       Inl e \<Rightarrow> (internal_server_error, saved)
     | Inr s2 \<Rightarrow> ((SuccessMessage ''Hazard marked as resolved'', 200), s2))"
proof -
  have pre: "prefix ''data:image'' (''data:image/'' @ sub @ '';base64,'' @ payload)"
    by simp
  have sv: "save_image dec fs (UPLOAD_FOLDER_AFTER cfg) ''resolved'' t_file
      (JStr (''data:image/'' @ sub @ '';base64,'' @ payload)) s = (Inr filename, saved)"
    unfolding saved
    by (rule save_image_ok [where sub = sub and dec = dec and payload = payload
          and bytes = bytes and stem = "''resolved''" and now = t_file
          and filename = filename and fs = fs, OF sub dec fn fs])
  show ?thesis
    unfolding resolve_hazard_def resolve_hazard_try_def catch_all_def
    by (simp add: sess img pre sv split: sum.splits del: append.simps)
qed

lemma update_resolved_in_range:
  "report_id < 2 ^ 63 \<Longrightarrow>
     update_resolved filename now report_id s =
       Inr (s\<lparr>reports :=
         map (\<lambda>r. if rowid r = report_id
                   then r\<lparr>after_image := Some filename, status := ''Resolved'',
                          date_resolved := Some now\<rparr>
                   else r)
             (reports s)\<rparr>)"
proof -
  assume "report_id < 2 ^ 63"
  then have "int report_id < 2 ^ 63"
    by (metis of_nat_less_iff of_nat_numeral of_nat_power)
  then have "sqlite_int_range (int report_id)"
    by (simp add: sqlite_int_range_def)
  then show ?thesis by (simp add: update_resolved_def)
qed



subsection \<open>How the two handlers change the table\<close>

lemma save_image_table:
  "reports (snd (save_image dec fs folder stem now v s)) = reports s"
  "sqlite_sequence (snd (save_image dec fs folder stem now v s)) = sqlite_sequence s"
  by (auto simp: save_image_def Let_def
        split: json.splits sum.splits option.splits prod.splits if_splits)

lemma insert_report_rows:
  "insert_report filename descr lat lon now ts s = Inr (n, s') \<Longrightarrow>
     \<exists>row. reports s' = reports s @ [row] \<and> status row = ''Pending''
          \<and> after_image row = None \<and> date_resolved row = None"
  by (auto simp: insert_report_def Let_def split: sum.splits if_splits)

lemma report_hazard_rows:
  "reports (snd (report_hazard dec fs cfg t_file t_row t_created data s)) = reports s
   \<or> (\<exists>row. reports (snd (report_hazard dec fs cfg t_file t_row t_created data s)) = reports s @ [row]
          \<and> status row = ''Pending'' \<and> after_image row = None \<and> date_resolved row = None)"
proof -
  obtain r s1 where sv: "save_image dec fs (UPLOAD_FOLDER_BEFORE cfg) ''hazard'' t_file
      (case py_getitem data ''before_image'' of Inr v \<Rightarrow> v | Inl e \<Rightarrow> JNull) s = (r, s1)"
    by (cases "save_image dec fs (UPLOAD_FOLDER_BEFORE cfg) ''hazard'' t_file
      (case py_getitem data ''before_image'' of Inr v \<Rightarrow> v | Inl e \<Rightarrow> JNull) s")
  have s1: "reports s1 = reports s"
    using save_image_table(1) [of dec fs "UPLOAD_FOLDER_BEFORE cfg" "''hazard''" t_file _ s] sv
    by (metis snd_conv)
  show ?thesis
    unfolding report_hazard_def report_hazard_try_def catch_all_def
    using sv s1
    by (auto split: sum.splits option.splits bool.splits prod.splits dest!: insert_report_rows)
qed

lemma resolve_hazard_rows:
  "reports (snd (resolve_hazard dec fs cfg t_file t_row sess report_id data s)) = reports s
   \<or> (\<exists>filename. reports (snd (resolve_hazard dec fs cfg t_file t_row sess report_id data s)) =
         map (\<lambda>r. if rowid r = report_id
                   then r\<lparr>after_image := Some filename, status := ''Resolved'',
                          date_resolved := Some t_row\<rparr>
                   else r) (reports s))"
proof -
  have "reports (snd (save_image dec fs (UPLOAD_FOLDER_AFTER cfg) ''resolved'' t_file v s)) = reports s" for v
    by (rule save_image_table)
  then have *: "save_image dec fs (UPLOAD_FOLDER_AFTER cfg) ''resolved'' t_file v s = (r, s1) \<Longrightarrow> reports s1 = reports s" for v r s1
    by (metis snd_conv)
  show ?thesis
    unfolding resolve_hazard_def resolve_hazard_try_def catch_all_def
    by (auto split: sum.splits option.splits bool.splits prod.splits if_splits
          simp: update_resolved_def dest!: *)
qed

lemma ball_map_preserved:
  "\<forall>x \<in> set xs. P x \<Longrightarrow> (\<And>x. P x \<Longrightarrow> P (f x)) \<Longrightarrow> \<forall>y \<in> set (map f xs). P y"
  by auto

lemma ball_snoc_preserved:
  "\<forall>x \<in> set xs. P x \<Longrightarrow> P y \<Longrightarrow> \<forall>z \<in> set (xs @ [y]). P z"
  by auto

lemma resolve_hazard_preserves:
  assumes inv: "\<forall>r \<in> set (reports s). P r"
    and step: "\<And>r filename. P r \<Longrightarrow>
        P (if rowid r = report_id
           then r\<lparr>after_image := Some filename, status := ''Resolved'',
                  date_resolved := Some t_row\<rparr>
           else r)"
  shows "\<forall>r \<in> set (reports (snd (resolve_hazard dec fs cfg t_file t_row sess report_id data s))). P r"
proof -
  let ?s' = "snd (resolve_hazard dec fs cfg t_file t_row sess report_id data s)"
  have "reports ?s' = reports s
   \<or> (\<exists>filename. reports ?s' =
         map (\<lambda>r. if rowid r = report_id
                   then r\<lparr>after_image := Some filename, status := ''Resolved'',
                          date_resolved := Some t_row\<rparr>
                   else r) (reports s))"
    by (rule resolve_hazard_rows)
  then show ?thesis
  proof
    assume "reports ?s' = reports s"
    with inv show ?thesis by (simp only:)
  next
    assume "\<exists>filename. reports ?s' =
         map (\<lambda>r. if rowid r = report_id
                   then r\<lparr>after_image := Some filename, status := ''Resolved'',
                          date_resolved := Some t_row\<rparr>
                   else r) (reports s)"
    then obtain filename where eq: "reports ?s' =
         map (\<lambda>r. if rowid r = report_id
                   then r\<lparr>after_image := Some filename, status := ''Resolved'',
                          date_resolved := Some t_row\<rparr>
                   else r) (reports s)" ..
    show ?thesis
      unfolding eq by (rule ball_map_preserved [OF inv]) (rule step)
  qed
qed

lemma report_hazard_preserves:
  assumes inv: "\<forall>r \<in> set (reports s). P r"
    and step: "\<And>row. status row = ''Pending'' \<Longrightarrow> after_image row = None \<Longrightarrow>
                  date_resolved row = None \<Longrightarrow> P row"
  shows "\<forall>r \<in> set (reports (snd (report_hazard dec fs cfg t_file t_row t_created data s))). P r"
proof -
  let ?s' = "snd (report_hazard dec fs cfg t_file t_row t_created data s)"
  have "reports ?s' = reports s
   \<or> (\<exists>row. reports ?s' = reports s @ [row]
          \<and> status row = ''Pending'' \<and> after_image row = None \<and> date_resolved row = None)"
    by (rule report_hazard_rows)
  then show ?thesis
  proof
    assume "reports ?s' = reports s"
    with inv show ?thesis by (simp only:)
  next
    assume "\<exists>row. reports ?s' = reports s @ [row]
          \<and> status row = ''Pending'' \<and> after_image row = None \<and> date_resolved row = None"
    then obtain row where eq: "reports ?s' = reports s @ [row]"
      and row: "status row = ''Pending''" "after_image row = None" "date_resolved row = None"
      by blast
    show ?thesis
      unfolding eq by (rule ball_snoc_preserved [OF inv]) (rule step [OF row])
  qed
qed

lemma insert_report_ids:
  "insert_report filename descr lat lon now ts s = Inr (n, s') \<Longrightarrow>
     \<exists>row. reports s' = reports s @ [row]
          \<and> rowid row = Suc (max (sqlite_sequence s) (max_rowid (reports s)))
          \<and> sqlite_sequence s' = rowid row"
  by (auto simp: insert_report_def Let_def split: sum.splits if_splits)

lemma report_hazard_ids:
  "(reports (snd (report_hazard dec fs cfg t_file t_row t_created data s)) = reports s
      \<and> sqlite_sequence (snd (report_hazard dec fs cfg t_file t_row t_created data s))
          = sqlite_sequence s)
   \<or> (\<exists>row. reports (snd (report_hazard dec fs cfg t_file t_row t_created data s))
               = reports s @ [row]
          \<and> rowid row = Suc (max (sqlite_sequence s) (max_rowid (reports s)))
          \<and> sqlite_sequence (snd (report_hazard dec fs cfg t_file t_row t_created data s))
               = rowid row)"
proof -
  obtain r s1 where sv: "save_image dec fs (UPLOAD_FOLDER_BEFORE cfg) ''hazard'' t_file
      (case py_getitem data ''before_image'' of Inr v \<Rightarrow> v | Inl e \<Rightarrow> JNull) s = (r, s1)"
    by (cases "save_image dec fs (UPLOAD_FOLDER_BEFORE cfg) ''hazard'' t_file
      (case py_getitem data ''before_image'' of Inr v \<Rightarrow> v | Inl e \<Rightarrow> JNull) s")
  have s1: "reports s1 = reports s" "sqlite_sequence s1 = sqlite_sequence s"
    using save_image_table [of dec fs "UPLOAD_FOLDER_BEFORE cfg" "''hazard''" t_file _ s] sv
    by (metis snd_conv)+
  show ?thesis
    unfolding report_hazard_def report_hazard_try_def catch_all_def
    using sv s1
    by (auto split: sum.splits option.splits bool.splits prod.splits dest!: insert_report_ids)
qed

lemma resolve_hazard_ids:
  "map rowid (reports (snd (resolve_hazard dec fs cfg t_file t_row sess report_id data s)))
     = map rowid (reports s)
   \<and> sqlite_sequence (snd (resolve_hazard dec fs cfg t_file t_row sess report_id data s))
     = sqlite_sequence s"
proof -
  have *: "save_image dec fs (UPLOAD_FOLDER_AFTER cfg) ''resolved'' t_file v s = (r, s1) \<Longrightarrow>
      reports s1 = reports s \<and> sqlite_sequence s1 = sqlite_sequence s" for v r s1
    using save_image_table [of dec fs "UPLOAD_FOLDER_AFTER cfg" "''resolved''" t_file v s]
    by (metis snd_conv)
  have m: "map rowid (map (\<lambda>r. if rowid r = report_id
                   then r\<lparr>after_image := Some filename, status := ''Resolved'',
                          date_resolved := Some t_row\<rparr>
                   else r) rows) = map rowid rows" for filename rows
    by (induction rows) auto
  show ?thesis
    unfolding resolve_hazard_def resolve_hazard_try_def catch_all_def
    by (auto split: sum.splits option.splits bool.splits prod.splits if_splits
          simp: update_resolved_def m dest!: *)
qed

text \<open>
  In every reachable state the ids are positive, pairwise different and at most the
  AUTOINCREMENT counter: the counter is the largest id issued so far, and the
  \<^verbatim>\<open>UPDATE\<close> of a resolution touches at most one row.
\<close>

lemma reachable_rowids:
  "reachable s \<Longrightarrow>
     (\<forall>i \<in> set (map rowid (reports s)). 0 < i \<and> i \<le> sqlite_sequence s)
     \<and> distinct (map rowid (reports s))"
proof (induction rule: reachable.induct)
  case (init fs)
  show ?case by (simp add: init_db_def)
next
  case (report s dec fs cfg t_file t_row t_created data)
  let ?s' = "snd (report_hazard dec fs cfg t_file t_row t_created data s)"
  from report_hazard_ids [of dec fs cfg t_file t_row t_created data s]
  show ?case
  proof (elim disjE exE conjE)
    assume "reports ?s' = reports s" "sqlite_sequence ?s' = sqlite_sequence s"
    with report.IH show ?thesis by simp
  next
    fix row
    assume eq: "reports ?s' = reports s @ [row]"
      and id: "rowid row = Suc (max (sqlite_sequence s) (max_rowid (reports s)))"
      and sq: "sqlite_sequence ?s' = rowid row"
    from report.IH id have lt: "\<forall>i \<in> set (map rowid (reports s)). i < rowid row"
      by fastforce
    then have "rowid row \<notin> set (map rowid (reports s))"
      by blast
    with report.IH lt id show ?thesis
      unfolding eq sq by (simp add: less_imp_le)
  qed
next
  case (resolve s dec fs cfg t_file t_row sess report_id data)
  let ?s' = "snd (resolve_hazard dec fs cfg t_file t_row sess report_id data s)"
  from resolve_hazard_ids [of dec fs cfg t_file t_row sess report_id data s]
  have ids: "map rowid (reports ?s') = map rowid (reports s)"
    and sq: "sqlite_sequence ?s' = sqlite_sequence s"
    by blast+
  from resolve.IH show ?case
    unfolding ids sq .
qed

subsection \<open>The listing\<close>

lemma history_mset: "mset (history s) = mset (reports s)"
  by (simp add: history_def select_order_by_date_reported_desc_def)

lemma history_descending:
  "sorted_wrt (\<lambda>a b. dt_key (date_reported b) \<le> dt_key (date_reported a)) (history s)"
proof -
  have "sorted (map (\<lambda>r. dt_key (date_reported r))
                 (sort_key (\<lambda>r. dt_key (date_reported r)) (rev (reports s))))"
    by (rule sorted_sort_key)
  then show ?thesis
    by (simp add: history_def select_order_by_date_reported_desc_def sorted_wrt_rev
          sorted_wrt_map)
qed

lemma history_strictly_descending:
  assumes "distinct (map (\<lambda>r. dt_key (date_reported r)) (reports s))"
  shows "sorted_wrt (\<lambda>a b. dt_key (date_reported b) < dt_key (date_reported a)) (history s)"
proof -
  let ?f = "\<lambda>r. dt_key (date_reported r)"
  have "sorted (map ?f (sort_key ?f (rev (reports s))))"
    by (rule sorted_sort_key)
  moreover have "distinct (map ?f (rev (reports s)))"
    using assms by (simp add: rev_map [symmetric])
  then have "distinct (map ?f (sort_key ?f (rev (reports s))))"
    by (simp add: distinct_map)
  ultimately have "sorted_wrt (<) (map ?f (sort_key ?f (rev (reports s))))"
    by (simp add: strict_sorted_iff)
  then show ?thesis
    by (simp add: history_def select_order_by_date_reported_desc_def sorted_wrt_rev
          sorted_wrt_map)
qed

text \<open>Rows with equal \<open>date_reported\<close> are listed in insertion order.\<close>

lemma history_ties:
  assumes "\<forall>r \<in> set (reports s). date_reported r = t"
  shows "history s = reports s"
proof -
  let ?f = "\<lambda>r. dt_key (date_reported r)"
  have "sort_key ?f xs = xs" if "\<forall>r \<in> set xs. date_reported r = t" for xs :: "report list"
    using that
  proof (induction xs)
    case Nil
    show ?case by simp
  next
    case (Cons x xs)
    then have "sort_key ?f xs = xs" by simp
    moreover have "insort_key ?f x xs = x # xs"
      using Cons.prems by (cases xs) simp_all
    ultimately show ?case by simp
  qed
  from this [of "rev (reports s)"] assms show ?thesis
    by (simp add: history_def select_order_by_date_reported_desc_def)
qed

lemma reports_example_same_instant:
  "reports example_same_instant =
     [\<lparr>rowid = 1, before_image = ''hazard_20240517_090307.jpeg'', after_image = None,
       description = SqlText ''pothole'', latitude = SqlReal (Finite 12.9), longitude = SqlReal (Finite 77.6),
       status = ''Pending'', date_reported = example_time, date_resolved = None,
       created_at = example_time\<rparr>,
      \<lparr>rowid = 2, before_image = ''hazard_20240517_090307.png'', after_image = None,
       description = SqlText ''pothole'', latitude = SqlReal (Finite 12.9), longitude = SqlReal (Finite 77.6),
       status = ''Pending'', date_reported = example_time, date_resolved = None,
       created_at = example_time\<rparr>]"
  by code_simp

subsection \<open>The characters of a generated file name\<close>

lemma digit_in: "digit n \<in> set ''0123456789''"
proof -
  have "n mod 10 < length ''0123456789''" by simp
  then have "''0123456789'' ! (n mod 10) \<in> set ''0123456789''" by (rule nth_mem)
  then show ?thesis by (simp only: digit_def)
qed

lemma decimal_digits: "set (decimal n) \<subseteq> set ''0123456789''"
proof (induction n rule: decimal.induct)
  case (1 n)
  show ?case
  proof (cases "n < 10")
    case True
    then have "decimal n = [digit n]" by (subst decimal.simps) simp
    with digit_in [of n] show ?thesis by simp
  next
    case False
    then have "decimal n = decimal (n div 10) @ [digit n]" by (subst decimal.simps) simp
    with 1 [OF False] digit_in [of n] show ?thesis by simp
  qed
qed

lemma zfill_chars: "set (zfill w s) \<subseteq> insert CHR ''0'' (set s)"
  by (auto simp: zfill_def)

lemma zfill_decimal_no_slash: "CHR ''/'' \<notin> set (zfill w (decimal n))"
  using zfill_chars [of w "decimal n"] decimal_digits [of n] by auto

lemma strftime_no_slash: "CHR ''/'' \<notin> set (strftime_Ymd_HMS d)"
  by (simp add: strftime_Ymd_HMS_def zfill_decimal_no_slash)

text \<open>A file stored under a generated name is served under that name.\<close>

lemma hazard_filename_served:
  assumes "filename = ''hazard_'' @ strftime_Ymd_HMS t @ ''.'' @ ext"
    and "CHR ''/'' \<notin> set ext"
    and "files s (os_path_join folder filename) = Some bytes"
  shows "send_from_directory folder filename s = FileContent bytes"
  using assms strftime_no_slash [of t]
  by (auto simp: send_from_directory_def)

section \<open>The claims\<close>

text \<open>
  \<^bold>\<open>C4\<close>. A submission whose body is an object in which one of the four required fields
  is absent or empty (falsy) is answered with the 400 response
  \<open>Missing required field: g\<close>, where \<open>g\<close> is the first such field in the order
  before\_image, description, latitude, longitude (so \<open>g\<close> is that field when it is
  the only one). The state is returned as it was: no row is inserted and no file is written.
\<close>

theorem missing_field_rejected:
  assumes "field \<in> set required_fields" and "absent_or_empty kvs field"
  shows "\<exists>g. List.find (absent_or_empty kvs) required_fields = Some g
           \<and> g \<in> set required_fields \<and> absent_or_empty kvs g
           \<and> report_hazard dec fs cfg t_file t_row t_created (JObj kvs) s = (missing_field g, s)
           \<and> ((\<forall>h \<in> set required_fields. absent_or_empty kvs h \<longrightarrow> h = field) \<longrightarrow> g = field)"
proof -
  from assms obtain g where g: "List.find (absent_or_empty kvs) required_fields = Some g"
    by (cases "List.find (absent_or_empty kvs) required_fields") (auto simp: find_None_iff)
  then have mem: "g \<in> set required_fields" and ae: "absent_or_empty kvs g"
    by (auto simp: find_Some_iff)
  have "report_hazard dec fs cfg t_file t_row t_created (JObj kvs) s = (missing_field g, s)"
    by (simp add: report_hazard_def report_hazard_try_def catch_all_def check_required_obj g)
  with g mem ae show ?thesis by auto
qed

theorem missing_field_rejected_witness:
  "report_hazard b64decode example_fs example_config example_time example_time example_time
     (JObj [(''before_image'', JStr ''data:image/png;base64,QQ==''),
            (''description'', JStr []), (''latitude'', JFloat (Finite 12.9)), (''longitude'', JFloat (Finite 77.6))])
     (init_db Map.empty)
   = ((ErrorBody ''Missing required field: description'', 400), init_db Map.empty)"
proof -
  let ?kvs = "[(''before_image'', JStr ''data:image/png;base64,QQ==''),
               (''description'', JStr []), (''latitude'', JFloat (Finite 12.9)),
               (''longitude'', JFloat (Finite 77.6))]"
  have a: "''description'' \<in> set required_fields"
    by (simp add: required_fields_def)
  have b: "absent_or_empty ?kvs ''description''"
    by (simp add: absent_or_empty_def)
  have c: "\<forall>h \<in> set required_fields. absent_or_empty ?kvs h \<longrightarrow> h = ''description''"
    by (simp add: required_fields_def absent_or_empty_def)
  from missing_field_rejected [OF a b, of b64decode example_fs example_config example_time example_time
      example_time "init_db Map.empty"] c
  show ?thesis by (auto simp: missing_field_def)
qed

text \<open>
  \<^bold>\<open>C10\<close>. A submission whose latitude or longitude is the number 0 (the int \<open>0\<close> or the
  float \<open>0.0\<close>) is rejected by the required-field validation, which tests truthiness:
  the answer is the 400 response \<open>Missing required field: g\<close> for a required field \<open>g\<close>
  and the state is returned as it was. \<open>g\<close> is latitude when the two fields checked
  before it are usable and latitude is 0, and longitude when the three fields checked
  before it are usable and longitude is 0.
\<close>

theorem zero_coordinate_rejected:
  assumes "z = JInt 0 \<or> z = JFloat (Finite 0)"
    and "map_of kvs ''latitude'' = Some z \<or> map_of kvs ''longitude'' = Some z"
  shows "\<exists>g \<in> set required_fields.
           report_hazard dec fs cfg t_file t_row t_created (JObj kvs) s = (missing_field g, s)
         \<and> (\<not> absent_or_empty kvs ''before_image'' \<and> \<not> absent_or_empty kvs ''description''
              \<and> map_of kvs ''latitude'' = Some z \<longrightarrow> g = ''latitude'')
         \<and> (\<not> absent_or_empty kvs ''before_image'' \<and> \<not> absent_or_empty kvs ''description''
              \<and> \<not> absent_or_empty kvs ''latitude''
              \<and> map_of kvs ''longitude'' = Some z \<longrightarrow> g = ''longitude'')"
proof -
  have z: "\<not> truthy z"
    using assms(1) by auto
  have rh: "report_hazard dec fs cfg t_file t_row t_created (JObj kvs) s =
      (case List.find (absent_or_empty kvs) required_fields of
         Some g \<Rightarrow> (missing_field g, s)
       | None \<Rightarrow> report_hazard dec fs cfg t_file t_row t_created (JObj kvs) s)"
    by (simp add: report_hazard_def report_hazard_try_def catch_all_def check_required_obj
          split: option.splits)
  from assms(2) z have "absent_or_empty kvs ''latitude'' \<or> absent_or_empty kvs ''longitude''"
    by (auto simp: absent_or_empty_def)
  then have "\<exists>x \<in> set required_fields. absent_or_empty kvs x"
    by (auto simp: required_fields_def)
  then obtain g where g: "List.find (absent_or_empty kvs) required_fields = Some g"
    by (cases "List.find (absent_or_empty kvs) required_fields") (auto simp: find_None_iff)
  have mem: "g \<in> set required_fields"
    using g by (auto simp: find_Some_iff)
  have lat: "g = ''latitude''"
    if "\<not> absent_or_empty kvs ''before_image''" "\<not> absent_or_empty kvs ''description''"
       "map_of kvs ''latitude'' = Some z"
    using g that z by (simp add: required_fields_def absent_or_empty_def)
  have lon: "g = ''longitude''"
    if "\<not> absent_or_empty kvs ''before_image''" "\<not> absent_or_empty kvs ''description''"
       "\<not> absent_or_empty kvs ''latitude''" "map_of kvs ''longitude'' = Some z"
    using g that z by (simp add: required_fields_def absent_or_empty_def)
  from rh g have "report_hazard dec fs cfg t_file t_row t_created (JObj kvs) s = (missing_field g, s)"
    by simp
  with mem lat lon show ?thesis by blast
qed

theorem zero_coordinate_rejected_witness:
  "report_hazard b64decode example_fs example_config example_time example_time example_time
     (JObj [(''before_image'', JStr ''data:image/png;base64,QQ==''),
            (''description'', JStr ''pothole''), (''latitude'', JInt 0),
            (''longitude'', JFloat (Finite 77.6))])
     (init_db Map.empty)
   = ((ErrorBody ''Missing required field: latitude'', 400), init_db Map.empty)
   \<and> report_hazard b64decode example_fs example_config example_time example_time example_time
     (JObj [(''before_image'', JStr ''data:image/png;base64,QQ==''),
            (''description'', JStr ''pothole''), (''latitude'', JFloat (Finite 12.9)),
            (''longitude'', JFloat (Finite 0))])
     (init_db Map.empty)
   = ((ErrorBody ''Missing required field: longitude'', 400), init_db Map.empty)"
proof -
  let ?k1 = "[(''before_image'', JStr ''data:image/png;base64,QQ==''),
            (''description'', JStr ''pothole''), (''latitude'', JInt 0),
            (''longitude'', JFloat (Finite 77.6))]"
  let ?k2 = "[(''before_image'', JStr ''data:image/png;base64,QQ==''),
            (''description'', JStr ''pothole''), (''latitude'', JFloat (Finite 12.9)),
            (''longitude'', JFloat (Finite 0))]"
  have z1: "JInt 0 = JInt 0 \<or> JInt 0 = JFloat (Finite 0)"
    by simp
  have z2: "JFloat (Finite 0) = JInt 0 \<or> JFloat (Finite 0) = JFloat (Finite 0)"
    by simp
  have a1: "map_of ?k1 ''latitude'' = Some (JInt 0) \<or> map_of ?k1 ''longitude'' = Some (JInt 0)"
    by simp
  have a2: "map_of ?k2 ''latitude'' = Some (JFloat (Finite 0))
            \<or> map_of ?k2 ''longitude'' = Some (JFloat (Finite 0))"
    by simp
  have b1: "\<not> absent_or_empty ?k1 ''before_image'' \<and> \<not> absent_or_empty ?k1 ''description''
              \<and> map_of ?k1 ''latitude'' = Some (JInt 0)"
    by (simp add: absent_or_empty_def)
  have b2: "\<not> absent_or_empty ?k2 ''before_image'' \<and> \<not> absent_or_empty ?k2 ''description''
              \<and> \<not> absent_or_empty ?k2 ''latitude''
              \<and> map_of ?k2 ''longitude'' = Some (JFloat (Finite 0))"
    by (simp add: absent_or_empty_def)
  from zero_coordinate_rejected [OF z1 a1, of b64decode example_fs example_config example_time
      example_time example_time "init_db Map.empty"] b1
  have first: "report_hazard b64decode example_fs example_config example_time example_time
     example_time (JObj ?k1) (init_db Map.empty)
   = ((ErrorBody ''Missing required field: latitude'', 400), init_db Map.empty)"
    by (auto simp: missing_field_def)
  from zero_coordinate_rejected [OF z2 a2, of b64decode example_fs example_config example_time
      example_time example_time "init_db Map.empty"] b2
  have second: "report_hazard b64decode example_fs example_config example_time example_time
     example_time (JObj ?k2) (init_db Map.empty)
   = ((ErrorBody ''Missing required field: longitude'', 400), init_db Map.empty)"
    by (auto simp: missing_field_def)
  from first second show ?thesis by (rule conjI)
qed

text \<open>
  \<^bold>\<open>C5\<close>. When the session has no truthy \<open>admin_logged_in\<close>, \<^verbatim>\<open>resolve_hazard\<close> answers
  401 \<open>Unauthorized\<close> whatever the body, the report id and the clock are, and returns the
  state as it was: no row is changed and no file is written.
\<close>

theorem resolve_unauthorized:
  assumes "\<not> truthy (session_get sess ''admin_logged_in'')"
  shows "resolve_hazard dec fs cfg t_file t_row sess report_id data s = (unauthorized, s)"
  using assms by (simp add: resolve_hazard_def)

theorem resolve_unauthorized_witness:
  "resolve_hazard b64decode example_fs example_config example_time example_later visitor_session 1
     example_resolution (init_db Map.empty)
   = ((ErrorBody ''Unauthorized'', 401), init_db Map.empty)"
proof -
  have "\<not> truthy (session_get visitor_session ''admin_logged_in'')"
    by (simp add: session_get_def visitor_session_def)
  from resolve_unauthorized [OF this]
  show ?thesis by (simp add: unauthorized_def)
qed

text \<open>
  \<^bold>\<open>C2\<close>. The claim that every \<open>before_image\<close> string not of the full form
  \<^verbatim>\<open>data:image/<subtype>;base64,<payload>\<close> is rejected with \<open>Invalid image format\<close> does not
  hold: the handler tests the prefix \<^verbatim>\<open>data:image\<close> only. A string without the
  \<^verbatim>\<open>;base64\<close> marker is accepted, and one without the slash is answered with 500.
\<close>

theorem image_pattern_counterexample:
  "fst (report_hazard b64decode example_fs example_config example_time example_later example_later
          (example_report ''data:image/png,QQ=='') (init_db Map.empty))
     = (SuccessReport 1 ''Hazard reported successfully'', 200)
   \<and> fst (report_hazard b64decode example_fs example_config example_time example_later example_later
          (example_report ''data:image;base64,QQ=='') (init_db Map.empty))
     = (ErrorBody ''Internal server error'', 500)"
  by code_simp

text \<open>
  \<^bold>\<open>C2\<close>, amended. When the four required fields are present and non-empty and
  \<open>before_image\<close> is a string, the submission is rejected with the 400 response
  \<open>Invalid image format\<close>, the state unchanged, if the string does not start with
  \<^verbatim>\<open>data:image\<close>; a string that starts with it is never answered with that response.
\<close>

theorem invalid_image_prefix:
  assumes "\<forall>f \<in> set required_fields. \<not> absent_or_empty kvs f"
    and "map_of kvs ''before_image'' = Some (JStr u)"
  shows "(\<not> prefix ''data:image'' u \<longrightarrow>
            report_hazard dec fs cfg t_file t_row t_created (JObj kvs) s = (invalid_image_format, s))
       \<and> (prefix ''data:image'' u \<longrightarrow>
            fst (report_hazard dec fs cfg t_file t_row t_created (JObj kvs) s) \<noteq> invalid_image_format)"
proof -
  have chk: "check_required (JObj kvs) required_fields = Inr None"
    using assms(1) by (simp add: check_required_obj find_None_iff)
  show ?thesis
    by (auto simp: report_hazard_def report_hazard_try_def catch_all_def chk assms(2)
          invalid_image_format_def internal_server_error_def
          split: sum.splits prod.splits)
qed

theorem invalid_image_prefix_witness:
  "report_hazard b64decode example_fs example_config example_time example_later example_later
      (example_report ''https://example.org/pothole.png'') (init_db Map.empty)
     = ((ErrorBody ''Invalid image format'', 400), init_db Map.empty)
   \<and> fst (report_hazard b64decode example_fs example_config example_time example_later example_later
      (example_report ''data:image/png,QQ=='') (init_db Map.empty))
     \<noteq> (ErrorBody ''Invalid image format'', 400)"
proof -
  let ?kvs = "\<lambda>u. [(''description'', JStr ''pothole''), (''latitude'', JFloat (Finite 12.9)),
           (''longitude'', JFloat (Finite 77.6)), (''before_image'', JStr u)]"
  let ?u1 = "''https://example.org/pothole.png''"
  let ?u2 = "''data:image/png,QQ==''"
  have a1: "\<forall>f \<in> set required_fields. \<not> absent_or_empty (?kvs ?u1) f"
    by (simp add: required_fields_def absent_or_empty_def)
  have a2: "\<forall>f \<in> set required_fields. \<not> absent_or_empty (?kvs ?u2) f"
    by (simp add: required_fields_def absent_or_empty_def)
  have b1: "map_of (?kvs ?u1) ''before_image'' = Some (JStr ?u1)"
    by simp
  have b2: "map_of (?kvs ?u2) ''before_image'' = Some (JStr ?u2)"
    by simp
  have c: "\<not> prefix ''data:image'' ?u1"
    by simp
  have d: "prefix ''data:image'' ?u2"
    by simp
  from invalid_image_prefix [OF a1 b1, of b64decode example_fs
      example_config example_time example_later example_later "init_db Map.empty"]
    invalid_image_prefix [OF a2 b2, of b64decode example_fs
      example_config example_time example_later example_later "init_db Map.empty"] c d
  show ?thesis
    unfolding example_report_def invalid_image_format_def by blast
qed







text \<open>
  \<^bold>\<open>C7\<close>. A resolution changes nothing but \<open>after_image\<close>, \<open>status\<close> and
  \<open>date_resolved\<close> of the row with the given id. Whatever the request and its outcome,
  the table keeps its length and its order, every row keeps its id, \<open>before_image\<close>,
  description, latitude, longitude, \<open>date_reported\<close> and \<open>created_at\<close>, every row with
  another id is unchanged, and so is the AUTOINCREMENT counter. With a valid session, a
  well-formed image whose file name the file system accepts and a report id below
  \<open>2\<^sup>6\<^sup>3\<close> the answer is the success response.
\<close>

theorem resolve_frame:
  "length (reports (snd (resolve_hazard dec fs cfg t_file t_row sess report_id data s)))
     = length (reports s)
   \<and> sqlite_sequence (snd (resolve_hazard dec fs cfg t_file t_row sess report_id data s))
     = sqlite_sequence s
   \<and> (\<forall>i < length (reports s).
         rowid (reports (snd (resolve_hazard dec fs cfg t_file t_row sess report_id data s)) ! i)
           = rowid (reports s ! i)
       \<and> before_image
           (reports (snd (resolve_hazard dec fs cfg t_file t_row sess report_id data s)) ! i)
           = before_image (reports s ! i)
       \<and> description
           (reports (snd (resolve_hazard dec fs cfg t_file t_row sess report_id data s)) ! i)
           = description (reports s ! i)
       \<and> latitude
           (reports (snd (resolve_hazard dec fs cfg t_file t_row sess report_id data s)) ! i)
           = latitude (reports s ! i)
       \<and> longitude
           (reports (snd (resolve_hazard dec fs cfg t_file t_row sess report_id data s)) ! i)
           = longitude (reports s ! i)
       \<and> date_reported
           (reports (snd (resolve_hazard dec fs cfg t_file t_row sess report_id data s)) ! i)
           = date_reported (reports s ! i)
       \<and> created_at
           (reports (snd (resolve_hazard dec fs cfg t_file t_row sess report_id data s)) ! i)
           = created_at (reports s ! i)
       \<and> (rowid (reports s ! i) \<noteq> report_id \<longrightarrow>
            reports (snd (resolve_hazard dec fs cfg t_file t_row sess report_id data s)) ! i
              = reports s ! i))
   \<and> (truthy (session_get sess ''admin_logged_in'')
        \<and> data = JObj kvs
        \<and> map_of kvs ''after_image'' =
             Some (JStr (''data:image/'' @ sub @ '';base64,'' @ payload))
        \<and> CHR '','' \<notin> set sub
        \<and> dec payload = Some bytes
        \<and> fs (UPLOAD_FOLDER_AFTER cfg)
             (os_path_join (UPLOAD_FOLDER_AFTER cfg)
                (''resolved_'' @ strftime_Ymd_HMS t_file @ ''.'' @
                 takeWhile (\<lambda>x. x \<noteq> CHR ''/'') (takeWhile (\<lambda>x. x \<noteq> CHR '';'') sub)))
        \<and> report_id < 2 ^ 63
        \<longrightarrow> fst (resolve_hazard dec fs cfg t_file t_row sess report_id data s)
              = (SuccessMessage ''Hazard marked as resolved'', 200))"
proof -
  let ?s' = "snd (resolve_hazard dec fs cfg t_file t_row sess report_id data s)"
  have seq: "sqlite_sequence ?s' = sqlite_sequence s"
    using resolve_hazard_ids [of dec fs cfg t_file t_row sess report_id data s] by blast
  have "reports ?s' = reports s
   \<or> (\<exists>filename. reports ?s' =
         map (\<lambda>r. if rowid r = report_id
                   then r\<lparr>after_image := Some filename, status := ''Resolved'',
                          date_resolved := Some t_row\<rparr>
                   else r) (reports s))"
    by (rule resolve_hazard_rows)
  then obtain f where eq: "reports ?s' = map f (reports s)"
    and f: "\<And>r. rowid (f r) = rowid r \<and> before_image (f r) = before_image r
          \<and> description (f r) = description r \<and> latitude (f r) = latitude r
          \<and> longitude (f r) = longitude r \<and> date_reported (f r) = date_reported r
          \<and> created_at (f r) = created_at r \<and> (rowid r \<noteq> report_id \<longrightarrow> f r = r)"
  proof
    assume a: "reports ?s' = reports s"
    show thesis
      by (rule that [of "\<lambda>r. r"]) (simp_all add: a)
  next
    assume "\<exists>filename. reports ?s' =
         map (\<lambda>r. if rowid r = report_id
                   then r\<lparr>after_image := Some filename, status := ''Resolved'',
                          date_resolved := Some t_row\<rparr>
                   else r) (reports s)"
    then obtain filename where a: "reports ?s' =
         map (\<lambda>r. if rowid r = report_id
                   then r\<lparr>after_image := Some filename, status := ''Resolved'',
                          date_resolved := Some t_row\<rparr>
                   else r) (reports s)" ..
    show thesis
      by (rule that [of "\<lambda>r. if rowid r = report_id
                   then r\<lparr>after_image := Some filename, status := ''Resolved'',
                          date_resolved := Some t_row\<rparr>
                   else r"]) (simp_all add: a)
  qed
  have len: "length (reports ?s') = length (reports s)"
    by (simp add: eq)
  have rows: "rowid (reports ?s' ! i) = rowid (reports s ! i)
       \<and> before_image (reports ?s' ! i) = before_image (reports s ! i)
       \<and> description (reports ?s' ! i) = description (reports s ! i)
       \<and> latitude (reports ?s' ! i) = latitude (reports s ! i)
       \<and> longitude (reports ?s' ! i) = longitude (reports s ! i)
       \<and> date_reported (reports ?s' ! i) = date_reported (reports s ! i)
       \<and> created_at (reports ?s' ! i) = created_at (reports s ! i)
       \<and> (rowid (reports s ! i) \<noteq> report_id \<longrightarrow> reports ?s' ! i = reports s ! i)"
    if "i < length (reports s)" for i
    using f [of "reports s ! i"] that by (simp add: eq)
  have ok: "fst (resolve_hazard dec fs cfg t_file t_row sess report_id data s)
              = (SuccessMessage ''Hazard marked as resolved'', 200)"
    if h: "truthy (session_get sess ''admin_logged_in'')" "data = JObj kvs"
      "map_of kvs ''after_image'' = Some (JStr (''data:image/'' @ sub @ '';base64,'' @ payload))"
      "CHR '','' \<notin> set sub" "dec payload = Some bytes"
      "fs (UPLOAD_FOLDER_AFTER cfg)
             (os_path_join (UPLOAD_FOLDER_AFTER cfg)
                (''resolved_'' @ strftime_Ymd_HMS t_file @ ''.'' @
                 takeWhile (\<lambda>x. x \<noteq> CHR ''/'') (takeWhile (\<lambda>x. x \<noteq> CHR '';'') sub)))"
      "report_id < 2 ^ 63"
  proof -
    define filename where "filename = ''resolved'' @ ''_'' @ strftime_Ymd_HMS t_file @ ''.'' @
               takeWhile (\<lambda>x. x \<noteq> CHR ''/'') (takeWhile (\<lambda>x. x \<noteq> CHR '';'') sub)"
    define saved where "saved =
      s\<lparr>files := (files s)(os_path_join (UPLOAD_FOLDER_AFTER cfg) filename \<mapsto> bytes)\<rparr>"
    have fn: "filename = ''resolved_'' @ strftime_Ymd_HMS t_file @ ''.'' @
               takeWhile (\<lambda>x. x \<noteq> CHR ''/'') (takeWhile (\<lambda>x. x \<noteq> CHR '';'') sub)"
      by (simp add: filename_def)
    have acc: "fs (UPLOAD_FOLDER_AFTER cfg) (os_path_join (UPLOAD_FOLDER_AFTER cfg) filename)"
      using h(6) unfolding fn .
    show ?thesis
      unfolding h(2)
      using resolve_hazard_saved [where sub = sub and payload = payload and bytes = bytes
          and dec = dec and fs = fs and sess = sess and kvs = kvs and filename = filename
          and t_file = t_file and cfg = cfg and s = s and saved = saved and t_row = t_row
          and report_id = report_id, OF h(1) h(3) h(4) h(5) filename_def acc saved_def]
      by (simp add: update_resolved_in_range [OF h(7)])
  qed
  from len seq rows ok show ?thesis
    by blast
qed

theorem resolve_frame_witness:
  "fst (resolve_hazard b64decode example_fs example_config example_latest example_latest
          admin_session 1 example_resolution example_two_reports)
     = (SuccessMessage ''Hazard marked as resolved'', 200)
   \<and> length (reports (snd (resolve_hazard b64decode example_fs example_config example_latest
          example_latest admin_session 1 example_resolution example_two_reports))) = 2
   \<and> reports (snd (resolve_hazard b64decode example_fs example_config example_latest
          example_latest admin_session 1 example_resolution example_two_reports)) ! 1
       = reports example_two_reports ! 1
   \<and> rowid (reports (snd (resolve_hazard b64decode example_fs example_config example_latest
          example_latest admin_session 1 example_resolution example_two_reports)) ! 0) = 1
   \<and> before_image (reports (snd (resolve_hazard b64decode example_fs example_config
          example_latest example_latest admin_session 1 example_resolution
          example_two_reports)) ! 0) = ''hazard_20240517_090307.jpeg''
   \<and> date_reported (reports (snd (resolve_hazard b64decode example_fs example_config
          example_latest example_latest admin_session 1 example_resolution
          example_two_reports)) ! 0) = example_time"
proof -
  let ?R = "resolve_hazard b64decode example_fs example_config example_latest example_latest
          admin_session 1 example_resolution example_two_reports"
  have img: "map_of [(''after_image'', JStr ''data:image/png;base64,Qg=='')] ''after_image'' =
               Some (JStr (''data:image/'' @ ''png'' @ '';base64,'' @ ''Qg==''))"
    by simp
  have sub: "CHR '','' \<notin> set ''png''"
    by simp
  have acc: "example_fs (UPLOAD_FOLDER_AFTER example_config)
           (os_path_join (UPLOAD_FOLDER_AFTER example_config)
              (''resolved_'' @ strftime_Ymd_HMS example_latest @ ''.'' @
               takeWhile (\<lambda>x. x \<noteq> CHR ''/'') (takeWhile (\<lambda>x. x \<noteq> CHR '';'') ''png'')))"
    by code_simp
  have rng: "(1::nat) < 2 ^ 63"
    by simp
  note inst = resolve_frame [where dec = b64decode and fs = example_fs and sub = "''png''"
      and payload = "''Qg==''" and bytes = "[66]" and sess = admin_session
      and kvs = "[(''after_image'', JStr ''data:image/png;base64,Qg=='')]"
      and data = example_resolution
      and cfg = example_config and t_file = example_latest and t_row = example_latest
      and s = example_two_reports and report_id = 1]
  from inst example_session_truthy img sub b64decode_examples(2) acc rng
  have ok: "fst ?R = (SuccessMessage ''Hazard marked as resolved'', 200)"
    by (simp add: example_resolution_def)
  from inst have len: "length (reports (snd ?R)) = length (reports example_two_reports)"
    by blast
  from inst have frame: "\<forall>i < length (reports example_two_reports).
         rowid (reports (snd ?R) ! i) = rowid (reports example_two_reports ! i)
       \<and> before_image (reports (snd ?R) ! i) = before_image (reports example_two_reports ! i)
       \<and> date_reported (reports (snd ?R) ! i) = date_reported (reports example_two_reports ! i)
       \<and> (rowid (reports example_two_reports ! i) \<noteq> 1 \<longrightarrow>
            reports (snd ?R) ! i = reports example_two_reports ! i)"
    by blast
  from frame [rule_format, of 0] frame [rule_format, of 1] len ok
  show ?thesis
    by (simp add: reports_example_two_reports)
qed

text \<open>
  \<^bold>\<open>C1\<close>. In every row of \<^verbatim>\<open>hazard_reports\<close>, \<open>after_image\<close> and \<open>date_resolved\<close> are both
  present if and only if the status is \<open>Resolved\<close>. This holds of the table \<^verbatim>\<open>init_db\<close>
  creates, it is preserved by every call of \<^verbatim>\<open>report_hazard\<close> and by every call of
  \<^verbatim>\<open>resolve_hazard\<close>, whatever their inputs and outcome, and so it holds in every reachable
  state.
\<close>

theorem lifecycle_invariant:
  "(\<forall>r \<in> set (reports (init_db disk)). resolved_iff_complete r)
   \<and> ((\<forall>r \<in> set (reports s). resolved_iff_complete r) \<longrightarrow>
        (\<forall>r \<in> set (reports (snd (report_hazard dec fs cfg t_file t_row t_created data s))).
           resolved_iff_complete r))
   \<and> ((\<forall>r \<in> set (reports s). resolved_iff_complete r) \<longrightarrow>
        (\<forall>r \<in> set (reports (snd (resolve_hazard dec fs cfg t_file t_row sess report_id data s))).
           resolved_iff_complete r))
   \<and> (reachable s0 \<longrightarrow> (\<forall>r \<in> set (reports s0). resolved_iff_complete r))"
proof -
  have new: "resolved_iff_complete row"
    if "status row = ''Pending''" "after_image row = None" "date_resolved row = None"
    for row :: report
    by (simp add: that)
  have upd: "resolved_iff_complete
        (if rowid r = report_id
         then r\<lparr>after_image := Some filename, status := ''Resolved'', date_resolved := Some t_row\<rparr>
         else r)"
    if "resolved_iff_complete r" for r :: report and report_id filename t_row
    using that by (cases "rowid r = report_id") simp_all
  have rep: "\<forall>r \<in> set (reports (snd (report_hazard dec fs cfg t_file t_row t_created data s))).
           resolved_iff_complete r"
    if "\<forall>r \<in> set (reports s). resolved_iff_complete r" for dec fs cfg t_file t_row t_created data s
    using that by (rule report_hazard_preserves) (rule new)
  have res: "\<forall>r \<in> set (reports (snd (resolve_hazard dec fs cfg t_file t_row sess report_id data s))).
           resolved_iff_complete r"
    if "\<forall>r \<in> set (reports s). resolved_iff_complete r"
    for dec fs cfg t_file t_row sess report_id data s
    using that by (rule resolve_hazard_preserves) (rule upd)
  have ini: "\<forall>r \<in> set (reports (init_db disk)). resolved_iff_complete r" for disk
    by (simp add: init_db_def)
  have reach: "\<forall>r \<in> set (reports s0). resolved_iff_complete r" if "reachable s0"
    using that
  proof (induction rule: reachable.induct)
    case (init disk)
    show ?case by (rule ini)
  next
    case (report s dec fs cfg t_file t_row t_created data)
    from report.IH show ?case by (rule rep)
  next
    case (resolve s dec fs cfg t_file t_row sess report_id data)
    from resolve.IH show ?case by (rule res)
  qed
  show ?thesis
  proof (intro conjI impI)
    show "\<forall>r \<in> set (reports (init_db disk)). resolved_iff_complete r" by (rule ini)
  next
    assume "\<forall>r \<in> set (reports s). resolved_iff_complete r"
    then show "\<forall>r \<in> set (reports (snd (report_hazard dec fs cfg t_file t_row t_created data s))).
           resolved_iff_complete r" by (rule rep)
  next
    assume "\<forall>r \<in> set (reports s). resolved_iff_complete r"
    then show "\<forall>r \<in> set (reports (snd (resolve_hazard dec fs cfg t_file t_row sess report_id data s))).
           resolved_iff_complete r" by (rule res)
  next
    assume "reachable s0"
    then show "\<forall>r \<in> set (reports s0). resolved_iff_complete r" by (rule reach)
  qed
qed

theorem lifecycle_invariant_witness:
  "reachable example_resolved
   \<and> status (reports example_resolved ! 0) = ''Resolved''
   \<and> after_image (reports example_resolved ! 0) \<noteq> None
   \<and> date_resolved (reports example_resolved ! 0) \<noteq> None
   \<and> reachable example_pending
   \<and> status (reports example_pending ! 0) = ''Pending''
   \<and> \<not> (after_image (reports example_pending ! 0) \<noteq> None
          \<and> date_resolved (reports example_pending ! 0) \<noteq> None)"
proof -
  have rp: "reachable example_pending"
    unfolding example_pending_def by (intro reachable.intros)
  have rr: "reachable example_resolved"
    unfolding example_resolved_def by (intro reachable.intros rp)
  have mr: "reports example_resolved ! 0 \<in> set (reports example_resolved)"
    by (simp add: reports_example_resolved)
  have mp: "reports example_pending ! 0 \<in> set (reports example_pending)"
    by (simp add: reports_example_pending)
  have sr: "status (reports example_resolved ! 0) = ''Resolved''"
    by (simp add: reports_example_resolved)
  have sp: "status (reports example_pending ! 0) = ''Pending''"
    by (simp add: reports_example_pending)
  from lifecycle_invariant [where ?s0.0 = example_resolved] rr mr
  have "resolved_iff_complete (reports example_resolved ! 0)"
    by blast
  with sr have a: "after_image (reports example_resolved ! 0) \<noteq> None
      \<and> date_resolved (reports example_resolved ! 0) \<noteq> None"
    by blast
  from lifecycle_invariant [where ?s0.0 = example_pending] rp mp
  have "resolved_iff_complete (reports example_pending ! 0)"
    by blast
  with sp have b: "\<not> (after_image (reports example_pending ! 0) \<noteq> None
          \<and> date_resolved (reports example_pending ! 0) \<noteq> None)"
    by simp
  from rr sr a rp sp b show ?thesis by blast
qed

text \<open>
  \<^bold>\<open>C8\<close>. The claim that the listing is sorted by \<open>date_reported\<close> strictly descending
  does not hold: two submissions handled at the same clock reading give two rows with
  equal \<open>date_reported\<close>, and the listing shows both.
\<close>

theorem strictly_descending_counterexample:
  "reachable example_same_instant
   \<and> map rowid (history example_same_instant) = [1, 2]
   \<and> map date_reported (history example_same_instant) = [example_time, example_time]
   \<and> \<not> dt_key (date_reported (history example_same_instant ! 1))
          < dt_key (date_reported (history example_same_instant ! 0))"
proof -
  have "reachable example_pending"
    unfolding example_pending_def by (intro reachable.intros)
  then have r: "reachable example_same_instant"
    unfolding example_same_instant_def by (intro reachable.intros)
  have hist: "history example_same_instant = reports example_same_instant"
    by (rule history_ties [where t = example_time])
       (simp add: reports_example_same_instant)
  have h: "map rowid (history example_same_instant) = [1, 2]"
    "map date_reported (history example_same_instant) = [example_time, example_time]"
    by (simp_all add: hist reports_example_same_instant)
  have n: "\<not> dt_key (date_reported (history example_same_instant ! 1))
          < dt_key (date_reported (history example_same_instant ! 0))"
    by (simp add: hist reports_example_same_instant)
  from r h n show ?thesis by blast
qed

text \<open>
  \<^bold>\<open>C8\<close>, amended. The listing of \<^verbatim>\<open>/history\<close>, which is also the listing of
  \<^verbatim>\<open>/admin/dashboard\<close> for a logged-in session, holds every row of the table exactly once
  (nothing is filtered or paged) in descending order of \<open>date_reported\<close>: each row is
  reported no earlier than the rows after it, and strictly later when no two rows have
  the same \<open>date_reported\<close>.
\<close>

theorem list_reports_descending:
  "mset (history s) = mset (reports s)
   \<and> sorted_wrt (\<lambda>a b. dt_key (date_reported b) \<le> dt_key (date_reported a)) (history s)
   \<and> (distinct (map (\<lambda>r. dt_key (date_reported r)) (reports s)) \<longrightarrow>
        sorted_wrt (\<lambda>a b. dt_key (date_reported b) < dt_key (date_reported a)) (history s))
   \<and> (truthy (session_get sess ''admin_logged_in'') \<longrightarrow>
        admin_dashboard sess s = Dashboard (history s))"
  using history_mset [of s] history_descending [of s] history_strictly_descending [of s]
  by (simp add: admin_dashboard_def history_def)

theorem list_reports_descending_witness:
  "mset (history example_two_reports) = mset (reports example_two_reports)
   \<and> sorted_wrt (\<lambda>a b. dt_key (date_reported b) < dt_key (date_reported a))
        (history example_two_reports)
   \<and> admin_dashboard admin_session example_two_reports = Dashboard (history example_two_reports)"
proof -
  have d: "distinct (map (\<lambda>r. dt_key (date_reported r)) (reports example_two_reports))"
    by (simp add: reports_example_two_reports dt_key_def example_time_def example_later_def)
  from list_reports_descending [of example_two_reports admin_session] d example_session_truthy
  show ?thesis by blast
qed

text \<open>
  \<^bold>\<open>C9\<close>. Round trip. For every payload \<open>p\<close> that \<^verbatim>\<open>b64decode\<close> decodes to the bytes
  \<open>bytes\<close>, a submission with the image \<^verbatim>\<open>data:image/png;base64,\<close>\<open>p\<close> (with usable
  other fields, on a file system that accepts the generated name) stores a file with exactly the content \<open>bytes\<close> under the name recorded in the
  new row, \<^verbatim>\<open>hazard_<timestamp>.png\<close>, and \<^verbatim>\<open>/uploads/before/<that name>\<close> then answers with
  exactly \<open>bytes\<close>.
\<close>

theorem image_round_trip:
  assumes "map_of kvs ''before_image'' = Some (JStr (''data:image/png;base64,'' @ p))"
    and "dec p = Some bytes"
    and "map_of kvs ''description'' = Some d" "truthy d" "sql_adapt d = Inr dv"
        "dv \<noteq> SqlNull"
    and "map_of kvs ''latitude'' = Some la" "truthy la" "sql_adapt la = Inr lav"
        "lav \<noteq> SqlNull"
    and "map_of kvs ''longitude'' = Some lo" "truthy lo" "sql_adapt lo = Inr lov"
        "lov \<noteq> SqlNull"
    and "fs (UPLOAD_FOLDER_BEFORE cfg)
           (os_path_join (UPLOAD_FOLDER_BEFORE cfg)
              (''hazard_'' @ strftime_Ymd_HMS t_file @ ''.png''))"
  shows "\<exists>n filename s'.
           report_hazard dec fs cfg t_file t_row t_created (JObj kvs) s =
             ((SuccessReport n ''Hazard reported successfully'', 200), s')
         \<and> filename = ''hazard_'' @ strftime_Ymd_HMS t_file @ ''.png''
         \<and> rowid (last (reports s')) = n
         \<and> before_image (last (reports s')) = filename
         \<and> files s' (os_path_join (UPLOAD_FOLDER_BEFORE cfg) filename) = Some bytes
         \<and> uploaded_before_file cfg filename s' = FileContent bytes"
proof -
  define n where "n = Suc (max (sqlite_sequence s) (max_rowid (reports s)))"
  define filename where "filename = ''hazard'' @ ''_'' @ strftime_Ymd_HMS t_file @ ''.'' @
      takeWhile (\<lambda>x. x \<noteq> CHR ''/'') (takeWhile (\<lambda>x. x \<noteq> CHR '';'') ''png'')"
  define s' where "s' = s\<lparr>files := (files s)(os_path_join (UPLOAD_FOLDER_BEFORE cfg) filename \<mapsto> bytes),
       reports := reports s @
         [\<lparr>rowid = n, before_image = filename, after_image = None,
           description = dv, latitude = lav, longitude = lov,
           status = ''Pending'', date_reported = t_row, date_resolved = None,
           created_at = t_created\<rparr>],
       sqlite_sequence := n\<rparr>"
  have img: "map_of kvs ''before_image'' =
      Some (JStr (''data:image/'' @ ''png'' @ '';base64,'' @ p))"
    using assms(1) by simp
  have sub: "CHR '','' \<notin> set ''png''"
    by simp
  have fn: "filename = ''hazard_'' @ strftime_Ymd_HMS t_file @ ''.png''"
    by (simp add: filename_def)
  have acc: "fs (UPLOAD_FOLDER_BEFORE cfg) (os_path_join (UPLOAD_FOLDER_BEFORE cfg) filename)"
    using assms(15) unfolding fn .
  have res: "report_hazard dec fs cfg t_file t_row t_created (JObj kvs) s =
             ((SuccessReport n ''Hazard reported successfully'', 200), s')"
    unfolding s'_def
    by (rule report_hazard_success [where sub = "''png''" and payload = p and dec = dec
          and fs = fs and d = d and la = la and lo = lo and filename = filename and n = n,
          OF img sub assms(2-14) filename_def acc n_def])
  have fn': "filename = ''hazard_'' @ strftime_Ymd_HMS t_file @ ''.'' @ ''png''"
    by (simp add: filename_def)
  have stored: "files s' (os_path_join (UPLOAD_FOLDER_BEFORE cfg) filename) = Some bytes"
    by (simp add: s'_def)
  have served: "uploaded_before_file cfg filename s' = FileContent bytes"
    unfolding uploaded_before_file_def
    by (rule hazard_filename_served [OF fn' _ stored]) simp
  have row: "rowid (last (reports s')) = n" "before_image (last (reports s')) = filename"
    by (simp_all add: s'_def)
  from res fn row stored served show ?thesis by blast
qed

theorem image_round_trip_witness:
  "\<exists>n s'. report_hazard b64decode example_fs example_config example_time example_later example_later
             (example_report ''data:image/png;base64,aGVsbG8='') (init_db Map.empty)
           = ((SuccessReport n ''Hazard reported successfully'', 200), s')
         \<and> before_image (last (reports s')) = ''hazard_20240517_090307.png''
         \<and> uploaded_before_file example_config ''hazard_20240517_090307.png'' s'
             = FileContent [104, 101, 108, 108, 111]"
proof -
  let ?kvs = "[(''description'', JStr ''pothole''), (''latitude'', JFloat (Finite 12.9)),
           (''longitude'', JFloat (Finite 77.6)),
           (''before_image'', JStr ''data:image/png;base64,aGVsbG8='')]"
  have img: "map_of ?kvs ''before_image'' =
               Some (JStr (''data:image/png;base64,'' @ ''aGVsbG8=''))"
    by simp
  have dec: "b64decode ''aGVsbG8='' = Some [104, 101, 108, 108, 111]"
    by code_simp
  have d: "map_of ?kvs ''description'' = Some (JStr ''pothole'')" "truthy (JStr ''pothole'')"
      "sql_adapt (JStr ''pothole'') = Inr (SqlText ''pothole'')" "SqlText ''pothole'' \<noteq> SqlNull"
    by simp_all
  have la: "map_of ?kvs ''latitude'' = Some (JFloat (Finite 12.9))"
      "truthy (JFloat (Finite 12.9))"
      "sql_adapt (JFloat (Finite 12.9)) = Inr (SqlReal (Finite 12.9))"
      "SqlReal (Finite 12.9) \<noteq> SqlNull"
    by simp_all
  have lo: "map_of ?kvs ''longitude'' = Some (JFloat (Finite 77.6))"
      "truthy (JFloat (Finite 77.6))"
      "sql_adapt (JFloat (Finite 77.6)) = Inr (SqlReal (Finite 77.6))"
      "SqlReal (Finite 77.6) \<noteq> SqlNull"
    by simp_all
  have acc: "example_fs (UPLOAD_FOLDER_BEFORE example_config)
           (os_path_join (UPLOAD_FOLDER_BEFORE example_config)
              (''hazard_'' @ strftime_Ymd_HMS example_time @ ''.png''))"
    by code_simp
  from image_round_trip [where dec = b64decode and fs = example_fs and p = "''aGVsbG8=''" and kvs = ?kvs
      and cfg = example_config and t_file = example_time and t_row = example_later
      and t_created = example_later and s = "init_db Map.empty",
      OF img dec d la lo acc, folded example_report_def]
  obtain n filename s' where
    res: "report_hazard b64decode example_fs example_config example_time example_later example_later
             (example_report ''data:image/png;base64,aGVsbG8='') (init_db Map.empty)
           = ((SuccessReport n ''Hazard reported successfully'', 200), s')"
    and fn: "filename = ''hazard_'' @ strftime_Ymd_HMS example_time @ ''.png''"
    and row: "before_image (last (reports s')) = filename"
    and served: "uploaded_before_file example_config filename s'
             = FileContent [104, 101, 108, 108, 111]"
    by blast
  from fn have "filename = ''hazard_20240517_090307.png''"
    by (simp add: strftime_examples)
  with res row served show ?thesis by auto
qed

end
